theory Spec2Isabelle
  imports
    Complex_Main
    "HOL-Library.Multiset"
    "HOL-Library.Char_ord"
    "HOL-Library.List_Lexorder"
begin

section \<open>Tables of the league database\<close>

text \<open>
  The PostgreSQL tables read by the ranking queries (\<open>createTables\<close>). A \<open>DATE\<close> is
  identified with its day number and a \<open>TIMESTAMP\<close> with its tick count; both are
  compared as the database compares them. Nullable columns (\<open>player2_id\<close>,
  \<open>player4_id\<close>) carry an \<open>option\<close>, where \<open>None\<close> is SQL's \<open>NULL\<close>.
  \<open>created_at\<close> is never written by \<open>addMatch\<close>, so it always holds its default
  \<open>CURRENT_TIMESTAMP\<close>.

  The order in which the database compares names, its collation, is set nowhere in
  the source. It is a part of the database: \<open>collation db a b\<close> says that \<open>a\<close> sorts
  before \<open>b\<close> or ties with it.
\<close>

type_synonym date = int
type_synonym timestamp = int

record player =
  player_id :: int
  player_name :: string

record match =
  match_id :: int
  season_id :: int
  play_date :: date
  match_type :: string
  player1_id :: int
  player2_id :: "int option"
  player3_id :: int
  player4_id :: "int option"
  team1_score :: int
  team2_score :: int
  winning_team :: int
  created_at :: timestamp

record database =
  players :: "player list"
  matches :: "match list"
  collation :: "string \<Rightarrow> string \<Rightarrow> bool"

section \<open>SQL's three-valued conditions\<close>

text \<open>
  A condition evaluates to true, false or unknown (\<open>None\<close>). A \<open>CASE WHEN\<close>, a
  \<open>WHERE\<close> and a join's \<open>ON\<close> take a row only when the condition is true.
\<close>

type_synonym sqlbool = "bool option"

fun sql_and :: "sqlbool \<Rightarrow> sqlbool \<Rightarrow> sqlbool" where
  "sql_and (Some False) b = Some False"
| "sql_and a (Some False) = Some False"
| "sql_and (Some True) (Some True) = Some True"
| "sql_and a b = None"

fun sql_or :: "sqlbool \<Rightarrow> sqlbool \<Rightarrow> sqlbool" where
  "sql_or (Some True) b = Some True"
| "sql_or a (Some True) = Some True"
| "sql_or (Some False) (Some False) = Some False"
| "sql_or a b = None"

definition sql_eq :: "'a option \<Rightarrow> 'a option \<Rightarrow> sqlbool" where
  "sql_eq a b =
     (case a of None \<Rightarrow> None
      | Some x \<Rightarrow> (case b of None \<Rightarrow> None | Some y \<Rightarrow> Some (x = y)))"

definition sql_le :: "date option \<Rightarrow> date option \<Rightarrow> sqlbool" where
  "sql_le a b =
     (case a of None \<Rightarrow> None
      | Some x \<Rightarrow> (case b of None \<Rightarrow> None | Some y \<Rightarrow> Some (x \<le> y)))"

definition sql_is_not_null :: "'a option \<Rightarrow> sqlbool" where
  "sql_is_not_null a = Some (a \<noteq> None)"

definition is_true :: "sqlbool \<Rightarrow> bool" where
  "is_true b \<longleftrightarrow> b = Some True"

text \<open>
  A row of \<open>players p LEFT JOIN matches m\<close> carries either a match or, for a player
  that joins with none, \<open>NULL\<close> in every column of \<open>m\<close>.
\<close>

definition col :: "(match \<Rightarrow> 'a) \<Rightarrow> match option \<Rightarrow> 'a option" where
  "col f r = (case r of None \<Rightarrow> None | Some m \<Rightarrow> Some (f m))"

definition ncol :: "(match \<Rightarrow> 'a option) \<Rightarrow> match option \<Rightarrow> 'a option" where
  "ncol f r = (case r of None \<Rightarrow> None | Some m \<Rightarrow> f m)"

section \<open>The conditions shared by the statistics and form queries\<close>

text \<open>\<open>m.player1_id = p OR m.player2_id = p\<close>\<close>

definition on_team1 :: "int \<Rightarrow> match option \<Rightarrow> sqlbool" where
  "on_team1 pid r =
     sql_or (sql_eq (col player1_id r) (Some pid)) (sql_eq (ncol player2_id r) (Some pid))"

text \<open>\<open>m.player3_id = p OR m.player4_id = p\<close>\<close>

definition on_team2 :: "int \<Rightarrow> match option \<Rightarrow> sqlbool" where
  "on_team2 pid r =
     sql_or (sql_eq (col player3_id r) (Some pid)) (sql_eq (ncol player4_id r) (Some pid))"

text \<open>The condition of the \<open>wins\<close> count and of the form's \<open>'win'\<close>.\<close>

definition win_cond :: "int \<Rightarrow> match option \<Rightarrow> sqlbool" where
  "win_cond pid r =
     sql_or (sql_and (sql_eq (col winning_team r) (Some 1)) (on_team1 pid r))
            (sql_and (sql_eq (col winning_team r) (Some 2)) (on_team2 pid r))"

text \<open>The condition of the \<open>losses\<close> count.\<close>

definition loss_cond :: "int \<Rightarrow> match option \<Rightarrow> sqlbool" where
  "loss_cond pid r =
     sql_or (sql_and (sql_eq (col winning_team r) (Some 2)) (on_team1 pid r))
            (sql_and (sql_eq (col winning_team r) (Some 1)) (on_team2 pid r))"

text \<open>
  \<open>m.player1_id = p OR m.player2_id = p OR m.player3_id = p OR m.player4_id = p\<close>
\<close>

definition in_any_slot :: "int \<Rightarrow> match option \<Rightarrow> sqlbool" where
  "in_any_slot pid r =
     sql_or (sql_or (sql_or (sql_eq (col player1_id r) (Some pid))
                            (sql_eq (ncol player2_id r) (Some pid)))
                    (sql_eq (col player3_id r) (Some pid)))
            (sql_eq (ncol player4_id r) (Some pid))"

section \<open>Ordering rows\<close>

text \<open>
  \<open>ORDER BY\<close> as an insertion sort under the relation "may stand before". SQL leaves
  the order of rows that tie on every key open; the theorems below use only that the
  result is ordered and holds the same rows.
\<close>

fun insert_by :: "('a \<Rightarrow> 'a \<Rightarrow> bool) \<Rightarrow> 'a \<Rightarrow> 'a list \<Rightarrow> 'a list" where
  "insert_by le x [] = [x]"
| "insert_by le x (y # ys) = (if le x y then x # y # ys else y # insert_by le x ys)"

definition order_by :: "('a \<Rightarrow> 'a \<Rightarrow> bool) \<Rightarrow> 'a list \<Rightarrow> 'a list" where
  "order_by le xs = foldr (insert_by le) xs []"

section \<open>Player statistics\<close>

text \<open>
  A row of a statistics query, with the numbers the database computes. The counts are
  \<open>bigint\<close>, whose bound no count of matches reaches, and the percentage is
  \<open>numeric\<close>; the driver hands both to JavaScript as their decimal text.
\<close>

record player_stat =
  ps_id :: int
  ps_name :: string
  wins :: nat
  losses :: nat
  total_matches :: nat
  points :: nat
  win_percentage :: rat
  money_lost :: nat

text \<open>
  \<open>ROUND(x, s)\<close> on \<open>numeric\<close>: to \<open>s\<close> decimal places, a half away from zero. The
  quotient it is applied to is taken exactly; PostgreSQL first rounds it to at least
  sixteen significant digits, which cannot move the first decimal while
  \<open>wins + losses\<close> stays below \<open>10^12\<close>.
\<close>

definition sql_round :: "rat \<Rightarrow> nat \<Rightarrow> rat" where
  "sql_round x s = sgn x * of_int \<lfloor>\<bar>x\<bar> * 10 ^ s + 1 / 2\<rfloor> / 10 ^ s"

text \<open>
  \<open>FROM players p LEFT JOIN matches m ON ...\<close>, for one player: the matches the
  condition takes, or one all-\<open>NULL\<close> row when it takes none.
\<close>

definition left_join :: "(match option \<Rightarrow> sqlbool) \<Rightarrow> match list \<Rightarrow> match option list" where
  "left_join on ms =
     (case filter (\<lambda>m. is_true (on (Some m))) ms of
        [] \<Rightarrow> [None]
      | r # rs \<Rightarrow> map Some (r # rs))"

text \<open>\<open>COUNT(CASE WHEN c THEN 1 END)\<close>: the rows of the group on which \<open>c\<close> is true.\<close>

definition count_case :: "(match option \<Rightarrow> sqlbool) \<Rightarrow> match option list \<Rightarrow> nat" where
  "count_case c rs = length (filter (\<lambda>r. is_true (c r)) rs)"

text \<open>
  The group of one player (\<open>GROUP BY p.id, p.name\<close>; \<open>id\<close> is the primary key, so
  each player row is a group of its own) and the outer \<open>SELECT\<close> over it.
\<close>

definition select_stats :: "player \<Rightarrow> match option list \<Rightarrow> player_stat" where
  "select_stats p rs =
     (let w = count_case (win_cond (player_id p)) rs;
          l = count_case (loss_cond (player_id p)) rs;
          t = count_case (\<lambda>r. sql_is_not_null (col match_id r)) rs
      in \<lparr>ps_id = player_id p, ps_name = player_name p,
          wins = w, losses = l, total_matches = t,
          points = w * 4 + l * 1,
          win_percentage =
            (if w + l > 0 then sql_round (of_nat w * 100 / of_nat (w + l)) 1 else 0),
          money_lost = l * 20000\<rparr>)"

text \<open>
  \<open>ORDER BY points DESC, win_percentage DESC, name ASC\<close>, the names compared by the
  collation \<open>name_le\<close>.
\<close>

definition stats_order ::
  "(string \<Rightarrow> string \<Rightarrow> bool) \<Rightarrow> 'a player_stat_scheme \<Rightarrow> 'a player_stat_scheme \<Rightarrow> bool" where
  "stats_order name_le a b \<longleftrightarrow>
     points a > points b \<or>
     (points a = points b \<and>
       (win_percentage a > win_percentage b \<or>
        (win_percentage a = win_percentage b \<and> name_le (ps_name a) (ps_name b))))"

text \<open>The four statistics queries differ in the join condition only.\<close>

definition player_stats ::
  "(int \<Rightarrow> match option \<Rightarrow> sqlbool) \<Rightarrow> database \<Rightarrow> player_stat list" where
  "player_stats on db =
     order_by (stats_order (collation db))
       (map (\<lambda>p. select_stats p (left_join (on (player_id p)) (matches db))) (players db))"

definition getPlayerStatsLifetime :: "database \<Rightarrow> player_stat list" where
  "getPlayerStatsLifetime db = player_stats in_any_slot db"

definition getPlayerStatsBySeason :: "database \<Rightarrow> int \<Rightarrow> player_stat list" where
  "getPlayerStatsBySeason db seasonId =
     player_stats
       (\<lambda>pid r. sql_and (in_any_slot pid r) (sql_eq (col season_id r) (Some seasonId))) db"

definition getPlayerStatsByPlayDate :: "database \<Rightarrow> date \<Rightarrow> player_stat list" where
  "getPlayerStatsByPlayDate db playDate =
     player_stats
       (\<lambda>pid r. sql_and (in_any_slot pid r) (sql_le (col play_date r) (Some playDate))) db"

definition getPlayerStatsBySpecificDate :: "database \<Rightarrow> date \<Rightarrow> player_stat list" where
  "getPlayerStatsBySpecificDate db playDate =
     player_stats
       (\<lambda>pid r. sql_and (in_any_slot pid r) (sql_eq (col play_date r) (Some playDate))) db"

text \<open>The scope of a statistics query, to speak of all four at once.\<close>

datatype scope = Lifetime | BySeason int | ByPlayDate date | BySpecificDate date

fun stats_query :: "scope \<Rightarrow> database \<Rightarrow> player_stat list" where
  "stats_query Lifetime db = getPlayerStatsLifetime db"
| "stats_query (BySeason seasonId) db = getPlayerStatsBySeason db seasonId"
| "stats_query (ByPlayDate d) db = getPlayerStatsByPlayDate db d"
| "stats_query (BySpecificDate d) db = getPlayerStatsBySpecificDate db d"

section \<open>Recent form\<close>

record form_entry =
  result :: string
  form_play_date :: date

text \<open>\<open>ORDER BY m.play_date DESC, m.created_at DESC\<close>\<close>

definition form_order :: "match \<Rightarrow> match \<Rightarrow> bool" where
  "form_order a b \<longleftrightarrow>
     play_date a > play_date b \<or> (play_date a = play_date b \<and> created_at a \<ge> created_at b)"

text \<open>\<open>ORDER BY m.created_at DESC\<close>\<close>

definition created_order :: "match \<Rightarrow> match \<Rightarrow> bool" where
  "created_order a b \<longleftrightarrow> created_at a \<ge> created_at b"

text \<open>
  The select list of the form queries: \<open>'win'\<close> when the win condition is true,
  \<open>'loss'\<close> otherwise, and the play date (\<open>TO_CHAR\<close> only renders it).
\<close>

definition select_form :: "int \<Rightarrow> match \<Rightarrow> form_entry" where
  "select_form pid m =
     \<lparr>result = (if is_true (win_cond pid (Some m)) then ''win'' else ''loss''),
      form_play_date = play_date m\<rparr>"

text \<open>\<open>FROM matches m WHERE ... ORDER BY ... LIMIT n\<close>: the rows, before the select list.\<close>

definition form_rows ::
  "(match option \<Rightarrow> sqlbool) \<Rightarrow> (match \<Rightarrow> match \<Rightarrow> bool) \<Rightarrow> database \<Rightarrow> nat \<Rightarrow> match list" where
  "form_rows wh ord db limit =
     take limit (order_by ord (filter (\<lambda>m. is_true (wh (Some m))) (matches db)))"

definition getPlayerForm :: "database \<Rightarrow> int \<Rightarrow> nat \<Rightarrow> form_entry list" where
  "getPlayerForm db playerId limit =
     map (select_form playerId) (form_rows (in_any_slot playerId) form_order db limit)"

definition getPlayerFormBySeason :: "database \<Rightarrow> int \<Rightarrow> int \<Rightarrow> nat \<Rightarrow> form_entry list" where
  "getPlayerFormBySeason db playerId seasonId limit =
     map (select_form playerId)
       (form_rows
          (\<lambda>r. sql_and (in_any_slot playerId r) (sql_eq (col season_id r) (Some seasonId)))
          form_order db limit)"

definition getPlayerFormByDate :: "database \<Rightarrow> int \<Rightarrow> date \<Rightarrow> nat \<Rightarrow> form_entry list" where
  "getPlayerFormByDate db playerId d limit =
     map (select_form playerId)
       (form_rows
          (\<lambda>r. sql_and (in_any_slot playerId r) (sql_le (col play_date r) (Some d)))
          form_order db limit)"

definition getPlayerFormOnSpecificDate :: "database \<Rightarrow> int \<Rightarrow> date \<Rightarrow> nat \<Rightarrow> form_entry list" where
  "getPlayerFormOnSpecificDate db playerId d limit =
     map (select_form playerId)
       (form_rows
          (\<lambda>r. sql_and (in_any_slot playerId r) (sql_eq (col play_date r) (Some d)))
          created_order db limit)"

definition getPlayerFormBySpecificDate :: "database \<Rightarrow> int \<Rightarrow> date \<Rightarrow> nat \<Rightarrow> form_entry list" where
  "getPlayerFormBySpecificDate db playerId d limit =
     map (select_form playerId)
       (form_rows
          (\<lambda>r. sql_and (in_any_slot playerId r) (sql_eq (col play_date r) (Some d)))
          form_order db limit)"

text \<open>The scope of a form query, to speak of all five at once.\<close>

datatype form_scope =
    FormLifetime
  | FormBySeason int
  | FormByDate date
  | FormOnSpecificDate date
  | FormBySpecificDate date

fun form_query :: "form_scope \<Rightarrow> database \<Rightarrow> int \<Rightarrow> nat \<Rightarrow> form_entry list" where
  "form_query FormLifetime db playerId limit = getPlayerForm db playerId limit"
| "form_query (FormBySeason seasonId) db playerId limit =
     getPlayerFormBySeason db playerId seasonId limit"
| "form_query (FormByDate d) db playerId limit = getPlayerFormByDate db playerId d limit"
| "form_query (FormOnSpecificDate d) db playerId limit =
     getPlayerFormOnSpecificDate db playerId d limit"
| "form_query (FormBySpecificDate d) db playerId limit =
     getPlayerFormBySpecificDate db playerId d limit"

section \<open>The ranking router\<close>

text \<open>A ranking entry is a statistics row with the form added: \<open>{ ...player, form }\<close>.\<close>

record ranking_entry = player_stat +
  form :: "form_entry list"

definition with_form :: "player_stat \<Rightarrow> form_entry list \<Rightarrow> ranking_entry" where
  "with_form player f = player_stat.extend player \<lparr>form = f\<rparr>"

text \<open>What each handler computes when the cache has no value.\<close>

definition lifetime_rankings :: "database \<Rightarrow> ranking_entry list" where
  "lifetime_rankings db =
     map (\<lambda>player. with_form player (getPlayerForm db (ps_id player) 5))
       (getPlayerStatsLifetime db)"

definition season_rankings :: "database \<Rightarrow> int \<Rightarrow> ranking_entry list" where
  "season_rankings db seasonId =
     map (\<lambda>player. with_form player (getPlayerFormBySeason db (ps_id player) seasonId 5))
       (getPlayerStatsBySeason db seasonId)"

definition date_rankings :: "database \<Rightarrow> date \<Rightarrow> ranking_entry list" where
  "date_rankings db d =
     map (\<lambda>player. with_form player (getPlayerFormBySpecificDate db (ps_id player) d 5))
       (getPlayerStatsBySpecificDate db d)"

text \<open>
  \<open>rankingsCache\<close> is handed to the router from outside: a state \<open>'c\<close> with a \<open>get\<close>
  that answers a value or nothing (any falsy answer is a miss; an array, even an
  empty one, is a hit) and a \<open>set\<close> that either returns or throws.
\<close>

datatype 'c set_result = Returned 'c | Thrown 'c

record 'c cache_ops =
  cache_get :: "'c \<Rightarrow> string \<Rightarrow> ranking_entry list option \<times> 'c"
  cache_set :: "'c \<Rightarrow> string \<Rightarrow> ranking_entry list \<Rightarrow> nat \<Rightarrow> 'c set_result"

text \<open>
  The outcome of a request: the JSON body with the headers \<open>X-Cache\<close> and
  \<open>X-Cache-Key\<close>; the 400 of \<open>handleValidationErrors\<close>; or an exception that leaves
  the handler, so that \<open>res.json\<close> is never reached.
\<close>

datatype response =
    Json string string "ranking_entry list"
  | ValidationFailed
  | Failed

text \<open>\<open>rankingsCache.set(cacheKey, rankings, ttl)\<close> and the lines after it.\<close>

definition store_and_respond ::
  "'c cache_ops \<Rightarrow> 'c \<Rightarrow> string \<Rightarrow> ranking_entry list \<Rightarrow> nat \<Rightarrow> response \<times> 'c" where
  "store_and_respond ops c cacheKey rankings ttl =
     (case cache_set ops c cacheKey rankings ttl of
        Returned c' \<Rightarrow> (Json ''MISS'' cacheKey rankings, c')
      | Thrown c' \<Rightarrow> (Failed, c'))"

definition rankings_lifetime :: "'c cache_ops \<Rightarrow> database \<Rightarrow> 'c \<Rightarrow> response \<times> 'c" where
  "rankings_lifetime ops db c =
     (let cacheKey = ''rankings:lifetime'' in
      case cache_get ops c cacheKey of
        (Some rankings, c1) \<Rightarrow> (Json ''HIT'' cacheKey rankings, c1)
      | (None, c1) \<Rightarrow>
          store_and_respond ops c1 cacheKey (lifetime_rankings db) (10 * 60 * 1000))"

text \<open>
  \<open>seasonId\<close> is \<open>parseInt\<close> of a parameter that passed \<open>isInt({ min: 1 })\<close>: a natural
  number. In the template literal it reads as its decimal digits (as JavaScript
  prints an integer below \<open>10^21\<close>).
\<close>

fun number_to_string :: "nat \<Rightarrow> string" where
  "number_to_string n =
     (if n < 10 then [char_of (48 + n)]
      else number_to_string (n div 10) @ [char_of (48 + n mod 10)])"

declare number_to_string.simps [simp del]

text \<open>
  The query compares \<open>m.season_id\<close>, an \<open>INTEGER\<close>, with the parameter: a value
  outside that type makes the query fail.
\<close>

definition pg_integer :: "nat \<Rightarrow> int option" where
  "pg_integer n = (if n \<le> 2147483647 then Some (int n) else None)"

definition rankings_season :: "'c cache_ops \<Rightarrow> database \<Rightarrow> 'c \<Rightarrow> nat \<Rightarrow> response \<times> 'c" where
  "rankings_season ops db c seasonId =
     (let cacheKey = ''rankings:season:'' @ number_to_string seasonId in
      case cache_get ops c cacheKey of
        (Some rankings, c1) \<Rightarrow> (Json ''HIT'' cacheKey rankings, c1)
      | (None, c1) \<Rightarrow>
          (case pg_integer seasonId of
             None \<Rightarrow> (Failed, c1)
           | Some sid \<Rightarrow>
               store_and_respond ops c1 cacheKey (season_rankings db sid) (3 * 60 * 1000)))"

text \<open>
  The date reaches the queries as the text of the URL; \<open>date_in\<close> is PostgreSQL's
  reading of a text as a \<open>DATE\<close>, with \<open>None\<close> where it refuses the text and the
  query fails.
\<close>

definition rankings_date ::
  "'c cache_ops \<Rightarrow> (string \<Rightarrow> date option) \<Rightarrow> database \<Rightarrow> 'c \<Rightarrow> string \<Rightarrow> response \<times> 'c" where
  "rankings_date ops date_in db c date =
     (let cacheKey = ''rankings:date:'' @ date in
      case cache_get ops c cacheKey of
        (Some rankings, c1) \<Rightarrow> (Json ''HIT'' cacheKey rankings, c1)
      | (None, c1) \<Rightarrow>
          (case date_in date of
             None \<Rightarrow> (Failed, c1)
           | Some d \<Rightarrow>
               store_and_respond ops c1 cacheKey (date_rankings db d) (15 * 60 * 1000)))"

text \<open>
  The two routes with a parameter run \<open>handleValidationErrors\<close> before the handler.
  The validators are express-validator's \<open>isInt({ min: 1 })\<close> and \<open>isISO8601()\<close>,
  taken as parameters; \<open>parseInt\<close> likewise.
\<close>

definition season_route ::
  "(string \<Rightarrow> bool) \<Rightarrow> (string \<Rightarrow> nat) \<Rightarrow> 'c cache_ops \<Rightarrow> database \<Rightarrow> 'c \<Rightarrow> string
     \<Rightarrow> response \<times> 'c" where
  "season_route isInt parseInt ops db c param =
     (if \<not> isInt param then (ValidationFailed, c)
      else rankings_season ops db c (parseInt param))"

definition date_route ::
  "(string \<Rightarrow> bool) \<Rightarrow> 'c cache_ops \<Rightarrow> (string \<Rightarrow> date option) \<Rightarrow> database \<Rightarrow> 'c \<Rightarrow> string
     \<Rightarrow> response \<times> 'c" where
  "date_route isISO8601 ops date_in db c param =
     (if \<not> isISO8601 param then (ValidationFailed, c)
      else rankings_date ops date_in db c param)"

section \<open>The scoped cache\<close>

text \<open>
  Modelled from the spec: the scoped cache behind \<open>rankingsCache\<close>, whose
  implementation is not among the source files. It maps a scope key to a value and
  an expiry time; \<open>set\<close> stores the value with expiry = now + ttl, overwriting any
  entry of the key; \<open>get\<close> answers the value of an entry that is present and not
  expired, and nothing otherwise. Times are in milliseconds.
\<close>

record scoped_cache =
  entries :: "string \<rightharpoonup> (ranking_entry list \<times> nat)"
  now :: nat

definition scoped_get ::
  "scoped_cache \<Rightarrow> string \<Rightarrow> ranking_entry list option \<times> scoped_cache" where
  "scoped_get c key =
     (case entries c key of
        None \<Rightarrow> (None, c)
      | Some (v, expiry) \<Rightarrow> (if now c < expiry then (Some v, c) else (None, c)))"

definition scoped_set ::
  "scoped_cache \<Rightarrow> string \<Rightarrow> ranking_entry list \<Rightarrow> nat \<Rightarrow> scoped_cache set_result" where
  "scoped_set c key v ttlMillis =
     Returned (c\<lparr>entries := (entries c)(key \<mapsto> (v, now c + ttlMillis))\<rparr>)"

definition scoped_cache_ops :: "scoped_cache cache_ops" where
  "scoped_cache_ops = \<lparr>cache_get = scoped_get, cache_set = scoped_set\<rparr>"

section \<open>Vocabulary of the properties\<close>

text \<open>A player is on team 1 (slots 1 and 2), on team 2 (slots 3 and 4), in the match.\<close>

definition team1 :: "int \<Rightarrow> match \<Rightarrow> bool" where
  "team1 pid m \<longleftrightarrow> player1_id m = pid \<or> player2_id m = Some pid"

definition team2 :: "int \<Rightarrow> match \<Rightarrow> bool" where
  "team2 pid m \<longleftrightarrow> player3_id m = pid \<or> player4_id m = Some pid"

definition plays :: "int \<Rightarrow> match \<Rightarrow> bool" where
  "plays pid m \<longleftrightarrow> team1 pid m \<or> team2 pid m"

text \<open>A match belongs to a scope.\<close>

fun in_scope :: "scope \<Rightarrow> match \<Rightarrow> bool" where
  "in_scope Lifetime m = True"
| "in_scope (BySeason seasonId) m = (season_id m = seasonId)"
| "in_scope (ByPlayDate d) m = (play_date m \<le> d)"
| "in_scope (BySpecificDate d) m = (play_date m = d)"

text \<open>The matches of a player within a scope, as the table holds them.\<close>

definition matches_of :: "scope \<Rightarrow> int \<Rightarrow> database \<Rightarrow> match list" where
  "matches_of sc pid db = filter (\<lambda>m. plays pid m \<and> in_scope sc m) (matches db)"

text \<open>The matches a form query ranges over.\<close>

fun scope_of :: "form_scope \<Rightarrow> scope" where
  "scope_of FormLifetime = Lifetime"
| "scope_of (FormBySeason seasonId) = BySeason seasonId"
| "scope_of (FormByDate d) = ByPlayDate d"
| "scope_of (FormOnSpecificDate d) = BySpecificDate d"
| "scope_of (FormBySpecificDate d) = BySpecificDate d"

text \<open>
  Newest first: by play date descending, and among matches of one day the one
  recorded later first.
\<close>

definition newest_first :: "match list \<Rightarrow> bool" where
  "newest_first ms \<longleftrightarrow>
     sorted_wrt
       (\<lambda>a b. play_date b < play_date a \<or>
              (play_date b = play_date a \<and> created_at b \<le> created_at a)) ms"

text \<open>
  The row a statistics query holds for a player, counted over the player's matches of
  the scope.
\<close>

definition stat_row :: "scope \<Rightarrow> database \<Rightarrow> player \<Rightarrow> player_stat" where
  "stat_row sc db p =
     (let ms = matches_of sc (player_id p) db;
          w = length (filter (\<lambda>m. is_true (win_cond (player_id p) (Some m))) ms);
          l = length (filter (\<lambda>m. is_true (loss_cond (player_id p) (Some m))) ms)
      in \<lparr>ps_id = player_id p, ps_name = player_name p,
          wins = w, losses = l, total_matches = length ms,
          points = w * 4 + l * 1,
          win_percentage =
            (if w + l > 0 then sql_round (of_nat w * 100 / of_nat (w + l)) 1 else 0),
          money_lost = l * 20000\<rparr>)"

text \<open>
  A collation compares any two names and is transitive (equal names of different
  spelling may tie).
\<close>

definition linear_collation :: "(string \<Rightarrow> string \<Rightarrow> bool) \<Rightarrow> bool" where
  "linear_collation name_le \<longleftrightarrow>
     (\<forall>a b. name_le a b \<or> name_le b a) \<and>
     (\<forall>a b c. name_le a b \<and> name_le b c \<longrightarrow> name_le a c)"

text \<open>
  A list is ranked: points descending, ties by win percentage descending, remaining
  ties by name ascending in the collation \<open>name_le\<close>.
\<close>

definition ranked ::
  "(string \<Rightarrow> string \<Rightarrow> bool) \<Rightarrow> 'a player_stat_scheme list \<Rightarrow> bool" where
  "ranked name_le xs \<longleftrightarrow>
     (\<forall>i j. i < j \<and> j < length xs \<longrightarrow>
        points (xs ! j) \<le> points (xs ! i) \<and>
        (points (xs ! j) = points (xs ! i) \<longrightarrow>
           win_percentage (xs ! j) \<le> win_percentage (xs ! i) \<and>
           (win_percentage (xs ! j) = win_percentage (xs ! i) \<longrightarrow>
              name_le (ps_name (xs ! i)) (ps_name (xs ! j)))))"

text \<open>The digits of a key read back as a number.\<close>

definition string_to_number :: "string \<Rightarrow> nat" where
  "string_to_number s = foldl (\<lambda>a ch. 10 * a + (of_char ch - 48)) 0 s"

section \<open>Example data\<close>

definition demo_players :: "player list" where
  "demo_players =
     [\<lparr>player_id = 1, player_name = ''An''\<rparr>, \<lparr>player_id = 2, player_name = ''Binh''\<rparr>,
      \<lparr>player_id = 3, player_name = ''Chi''\<rparr>, \<lparr>player_id = 4, player_name = ''Dung''\<rparr>]"

definition demo_matches :: "match list" where
  "demo_matches =
     [\<lparr>match_id = 1, season_id = 1, play_date = 100, match_type = ''solo'',
       player1_id = 1, player2_id = None, player3_id = 3, player4_id = None,
       team1_score = 11, team2_score = 5, winning_team = 1, created_at = 1000\<rparr>,
      \<lparr>match_id = 2, season_id = 2, play_date = 101, match_type = ''duo'',
       player1_id = 1, player2_id = Some 2, player3_id = 3, player4_id = Some 4,
       team1_score = 7, team2_score = 11, winning_team = 2, created_at = 2000\<rparr>,
      \<lparr>match_id = 3, season_id = 1, play_date = 101, match_type = ''solo'',
       player1_id = 1, player2_id = None, player3_id = 2, player4_id = None,
       team1_score = 11, team2_score = 8, winning_team = 1, created_at = 3000\<rparr>]"

text \<open>The example database compares names codepoint by codepoint.\<close>

definition demo_db :: database where
  "demo_db =
     \<lparr>players = demo_players, matches = demo_matches, collation = (\<lambda>a b. a \<le> b)\<rparr>"

text \<open>
  A match the schema admits in which one player holds a slot of each team
  (\<open>player1_id\<close> and \<open>player4_id\<close>), in a database whose roster holds every player
  the match refers to.
\<close>

definition crossed_match :: match where
  "crossed_match =
     \<lparr>match_id = 1, season_id = 1, play_date = 100, match_type = ''duo'',
      player1_id = 1, player2_id = Some 2, player3_id = 3, player4_id = Some 1,
      team1_score = 11, team2_score = 9, winning_team = 1, created_at = 1000\<rparr>"

definition crossed_db :: database where
  "crossed_db =
     \<lparr>players =
        [\<lparr>player_id = 1, player_name = ''An''\<rparr>, \<lparr>player_id = 2, player_name = ''Binh''\<rparr>,
         \<lparr>player_id = 3, player_name = ''Chi''\<rparr>],
      matches = [crossed_match], collation = (\<lambda>a b. a \<le> b)\<rparr>"

text \<open>An empty cache at time 1000, a cache whose \<open>set\<close> throws, and a reading of dates.\<close>

definition empty_cache :: scoped_cache where
  "empty_cache = \<lparr>entries = Map.empty, now = 1000\<rparr>"

definition throwing_ops :: "scoped_cache cache_ops" where
  "throwing_ops = \<lparr>cache_get = scoped_get, cache_set = (\<lambda>c key v ttl. Thrown c)\<rparr>"

definition demo_date_in :: "string \<Rightarrow> date option" where
  "demo_date_in s = (if s = ''1970-04-12'' then Some 101 else None)"

section \<open>Facts about ordering\<close>

lemma mset_insert_by: "mset (insert_by le x xs) = add_mset x (mset xs)"
  by (induction xs) auto

lemma mset_order_by: "mset (order_by le xs) = mset xs"
  by (induction xs) (auto simp: order_by_def mset_insert_by)

lemma set_order_by: "set (order_by le xs) = set xs"
  using mset_order_by [of le xs] by (metis set_mset_mset)

lemma length_order_by: "length (order_by le xs) = length xs"
  using mset_order_by [of le xs] by (metis size_mset)

lemma set_insert_by: "set (insert_by le x xs) = insert x (set xs)"
  using mset_insert_by [of le x xs] by (metis set_mset_mset set_mset_add_mset_insert)

lemma sorted_wrt_insert_by:
  assumes total: "\<And>a b. le a b \<or> le b a"
    and trans: "\<And>a b c. le a b \<Longrightarrow> le b c \<Longrightarrow> le a c"
    and sorted: "sorted_wrt le xs"
  shows "sorted_wrt le (insert_by le x xs)"
  using sorted
proof (induction xs)
  case Nil
  then show ?case by simp
next
  case (Cons y ys)
  show ?case
  proof (cases "le x y")
    case True
    with Cons.prems have "\<forall>z \<in> set (y # ys). le x z"
      using trans by auto
    with True Cons.prems show ?thesis by simp
  next
    case False
    with total have "le y x" by blast
    with Cons.prems have "\<forall>z \<in> set (insert_by le x ys). le y z"
      by (simp add: set_insert_by)
    moreover from Cons have "sorted_wrt le (insert_by le x ys)" by simp
    ultimately show ?thesis using False by simp
  qed
qed

lemma sorted_wrt_order_by:
  assumes "\<And>a b. le a b \<or> le b a"
    and "\<And>a b c. le a b \<Longrightarrow> le b c \<Longrightarrow> le a c"
  shows "sorted_wrt le (order_by le xs)"
proof (induction xs)
  case Nil
  then show ?case by (simp add: order_by_def)
next
  case (Cons x xs)
  have "order_by le (x # xs) = insert_by le x (order_by le xs)"
    by (simp add: order_by_def)
  with Cons assms show ?case
    by (simp add: sorted_wrt_insert_by)
qed

lemma stats_order_iff:
  "stats_order le a b \<longleftrightarrow>
     points b \<le> points a \<and>
     (points b = points a \<longrightarrow>
        win_percentage b \<le> win_percentage a \<and>
        (win_percentage b = win_percentage a \<longrightarrow> le (ps_name a) (ps_name b)))"
  by (cases "points a" "points b" rule: linorder_cases;
      cases "win_percentage a" "win_percentage b" rule: linorder_cases;
      simp add: stats_order_def)

lemma stats_order_total:
  assumes "linear_collation le"
  shows "stats_order le a b \<or> stats_order le b a"
proof -
  from assms have "le (ps_name a) (ps_name b) \<or> le (ps_name b) (ps_name a)"
    unfolding linear_collation_def by blast
  then show ?thesis
    by (cases "points a" "points b" rule: linorder_cases;
        cases "win_percentage a" "win_percentage b" rule: linorder_cases;
        simp add: stats_order_def)
qed

lemma stats_order_trans:
  assumes lin: "linear_collation le"
    and ab: "stats_order le a b" and bc: "stats_order le b c"
  shows "stats_order le a c"
proof -
  from ab have pab: "points b \<le> points a"
    and wab: "points b = points a \<Longrightarrow> win_percentage b \<le> win_percentage a"
    and nab: "points b = points a \<Longrightarrow> win_percentage b = win_percentage a \<Longrightarrow>
              le (ps_name a) (ps_name b)"
    by (simp_all add: stats_order_iff)
  from bc have pbc: "points c \<le> points b"
    and wbc: "points c = points b \<Longrightarrow> win_percentage c \<le> win_percentage b"
    and nbc: "points c = points b \<Longrightarrow> win_percentage c = win_percentage b \<Longrightarrow>
              le (ps_name b) (ps_name c)"
    by (simp_all add: stats_order_iff)
  have p: "points c \<le> points a"
    using pab pbc by (rule order_trans [rotated])
  have w: "win_percentage c \<le> win_percentage a" if eq: "points c = points a"
  proof -
    from eq pab pbc have e1: "points b = points a" and e2: "points c = points b"
      by simp_all
    from wbc [OF e2] wab [OF e1] show ?thesis
      by (rule order_trans)
  qed
  have n: "le (ps_name a) (ps_name c)"
    if eq: "points c = points a" and weq: "win_percentage c = win_percentage a"
  proof -
    from eq pab pbc have e1: "points b = points a" and e2: "points c = points b"
      by simp_all
    from weq wab [OF e1] wbc [OF e2]
    have f1: "win_percentage b = win_percentage a" and f2: "win_percentage c = win_percentage b"
      by simp_all
    from lin nab [OF e1 f1] nbc [OF e2 f2] show ?thesis
      unfolding linear_collation_def by blast
  qed
  from p w n show ?thesis
    by (simp add: stats_order_iff)
qed

lemma form_order_total: "form_order a b \<or> form_order b a"
  by (auto simp: form_order_def)

lemma form_order_trans: "form_order a b \<Longrightarrow> form_order b c \<Longrightarrow> form_order a c"
  by (auto simp: form_order_def)

lemma created_order_total: "created_order a b \<or> created_order b a"
  by (auto simp: created_order_def)

lemma created_order_trans: "created_order a b \<Longrightarrow> created_order b c \<Longrightarrow> created_order a c"
  by (auto simp: created_order_def)

section \<open>Evaluation of the example\<close>

lemmas sql_eval =
  left_join_def in_any_slot_def col_def ncol_def sql_eq_def sql_le_def is_true_def
  select_stats_def count_case_def win_cond_def loss_cond_def on_team1_def on_team2_def
  sql_is_not_null_def sql_round_def order_by_def stats_order_def player_stats_def
  floor_eq_iff

lemmas demo_eval = demo_db_def demo_players_def demo_matches_def

lemma demo_stats_lifetime:
  "getPlayerStatsLifetime demo_db =
     [\<lparr>ps_id = 1, ps_name = ''An'', wins = 2, losses = 1, total_matches = 3,
       points = 9, win_percentage = 667 / 10, money_lost = 20000\<rparr>,
      \<lparr>ps_id = 3, ps_name = ''Chi'', wins = 1, losses = 1, total_matches = 2,
       points = 5, win_percentage = 50, money_lost = 20000\<rparr>,
      \<lparr>ps_id = 4, ps_name = ''Dung'', wins = 1, losses = 0, total_matches = 1,
       points = 4, win_percentage = 100, money_lost = 0\<rparr>,
      \<lparr>ps_id = 2, ps_name = ''Binh'', wins = 0, losses = 2, total_matches = 2,
       points = 2, win_percentage = 0, money_lost = 40000\<rparr>]"
  by (simp add: getPlayerStatsLifetime_def demo_eval sql_eval)

lemma demo_stats_season:
  "getPlayerStatsBySeason demo_db 1 =
     [\<lparr>ps_id = 1, ps_name = ''An'', wins = 2, losses = 0, total_matches = 2,
       points = 8, win_percentage = 100, money_lost = 0\<rparr>,
      \<lparr>ps_id = 2, ps_name = ''Binh'', wins = 0, losses = 1, total_matches = 1,
       points = 1, win_percentage = 0, money_lost = 20000\<rparr>,
      \<lparr>ps_id = 3, ps_name = ''Chi'', wins = 0, losses = 1, total_matches = 1,
       points = 1, win_percentage = 0, money_lost = 20000\<rparr>,
      \<lparr>ps_id = 4, ps_name = ''Dung'', wins = 0, losses = 0, total_matches = 0,
       points = 0, win_percentage = 0, money_lost = 0\<rparr>]"
  by (simp add: getPlayerStatsBySeason_def demo_eval sql_eval)

lemma demo_stats_date:
  "getPlayerStatsBySpecificDate demo_db 101 =
     [\<lparr>ps_id = 1, ps_name = ''An'', wins = 1, losses = 1, total_matches = 2,
       points = 5, win_percentage = 50, money_lost = 20000\<rparr>,
      \<lparr>ps_id = 3, ps_name = ''Chi'', wins = 1, losses = 0, total_matches = 1,
       points = 4, win_percentage = 100, money_lost = 0\<rparr>,
      \<lparr>ps_id = 4, ps_name = ''Dung'', wins = 1, losses = 0, total_matches = 1,
       points = 4, win_percentage = 100, money_lost = 0\<rparr>,
      \<lparr>ps_id = 2, ps_name = ''Binh'', wins = 0, losses = 2, total_matches = 2,
       points = 2, win_percentage = 0, money_lost = 40000\<rparr>]"
  by (simp add: getPlayerStatsBySpecificDate_def demo_eval sql_eval)

lemma crossed_stats_lifetime:
  "getPlayerStatsLifetime crossed_db =
     [\<lparr>ps_id = 1, ps_name = ''An'', wins = 1, losses = 1, total_matches = 1,
       points = 5, win_percentage = 50, money_lost = 20000\<rparr>,
      \<lparr>ps_id = 2, ps_name = ''Binh'', wins = 1, losses = 0, total_matches = 1,
       points = 4, win_percentage = 100, money_lost = 0\<rparr>,
      \<lparr>ps_id = 3, ps_name = ''Chi'', wins = 0, losses = 1, total_matches = 1,
       points = 1, win_percentage = 0, money_lost = 20000\<rparr>]"
  by (simp add: getPlayerStatsLifetime_def crossed_db_def crossed_match_def sql_eval)

lemma crossed_form_lifetime:
  "getPlayerForm crossed_db 1 5 = [\<lparr>result = ''win'', form_play_date = 100\<rparr>]"
  by (simp add: getPlayerForm_def form_rows_def select_form_def form_order_def
      crossed_db_def crossed_match_def sql_eval)

lemma crossed_form: "select_form 1 crossed_match = \<lparr>result = ''win'', form_play_date = 100\<rparr>"
  by (simp add: select_form_def crossed_match_def sql_eval)

lemmas form_eval = form_rows_def select_form_def form_order_def created_order_def

lemma demo_form_lifetime:
  "getPlayerForm demo_db 1 5 =
     [\<lparr>result = ''win'', form_play_date = 101\<rparr>, \<lparr>result = ''loss'', form_play_date = 101\<rparr>,
      \<lparr>result = ''win'', form_play_date = 100\<rparr>]"
  "getPlayerForm demo_db 2 5 =
     [\<lparr>result = ''loss'', form_play_date = 101\<rparr>, \<lparr>result = ''loss'', form_play_date = 101\<rparr>]"
  "getPlayerForm demo_db 3 5 =
     [\<lparr>result = ''win'', form_play_date = 101\<rparr>, \<lparr>result = ''loss'', form_play_date = 100\<rparr>]"
  "getPlayerForm demo_db 4 5 = [\<lparr>result = ''win'', form_play_date = 101\<rparr>]"
  by (simp_all add: getPlayerForm_def demo_eval form_eval sql_eval)

lemma demo_form_season:
  "getPlayerFormBySeason demo_db 1 1 5 =
     [\<lparr>result = ''win'', form_play_date = 101\<rparr>, \<lparr>result = ''win'', form_play_date = 100\<rparr>]"
  "getPlayerFormBySeason demo_db 2 1 5 = [\<lparr>result = ''loss'', form_play_date = 101\<rparr>]"
  "getPlayerFormBySeason demo_db 3 1 5 = [\<lparr>result = ''loss'', form_play_date = 100\<rparr>]"
  "getPlayerFormBySeason demo_db 4 1 5 = []"
  by (simp_all add: getPlayerFormBySeason_def demo_eval form_eval sql_eval)

lemma demo_rankings_season:
  "season_rankings demo_db 1 =
     [\<lparr>ps_id = 1, ps_name = ''An'', wins = 2, losses = 0, total_matches = 2,
       points = 8, win_percentage = 100, money_lost = 0,
       form = [\<lparr>result = ''win'', form_play_date = 101\<rparr>,
               \<lparr>result = ''win'', form_play_date = 100\<rparr>]\<rparr>,
      \<lparr>ps_id = 2, ps_name = ''Binh'', wins = 0, losses = 1, total_matches = 1,
       points = 1, win_percentage = 0, money_lost = 20000,
       form = [\<lparr>result = ''loss'', form_play_date = 101\<rparr>]\<rparr>,
      \<lparr>ps_id = 3, ps_name = ''Chi'', wins = 0, losses = 1, total_matches = 1,
       points = 1, win_percentage = 0, money_lost = 20000,
       form = [\<lparr>result = ''loss'', form_play_date = 100\<rparr>]\<rparr>,
      \<lparr>ps_id = 4, ps_name = ''Dung'', wins = 0, losses = 0, total_matches = 0,
       points = 0, win_percentage = 0, money_lost = 0, form = []\<rparr>]"
  by (simp add: season_rankings_def demo_stats_season demo_form_season with_form_def
      player_stat.extend_def)

lemma demo_form_limit_2:
  "getPlayerForm demo_db 1 2 =
     [\<lparr>result = ''win'', form_play_date = 101\<rparr>, \<lparr>result = ''loss'', form_play_date = 101\<rparr>]"
  by (simp add: getPlayerForm_def demo_eval form_eval sql_eval)

lemma demo_matches_of_An: "length (matches_of Lifetime 1 demo_db) = 3"
  by (simp add: matches_of_def plays_def team1_def team2_def demo_eval)

section \<open>Two-valued reading of the conditions\<close>

lemma is_true_sql_or [simp]: "is_true (sql_or a b) \<longleftrightarrow> is_true a \<or> is_true b"
  by (induction a b rule: sql_or.induct) (auto simp: is_true_def)

lemma is_true_sql_and [simp]: "is_true (sql_and a b) \<longleftrightarrow> is_true a \<and> is_true b"
  by (induction a b rule: sql_and.induct) (auto simp: is_true_def)

lemma is_true_None [simp]: "\<not> is_true None"
  by (simp add: is_true_def)

lemma is_true_eq_col [simp]: "is_true (sql_eq (col f (Some m)) (Some v)) \<longleftrightarrow> f m = v"
  by (simp add: is_true_def sql_eq_def col_def)

lemma is_true_eq_ncol [simp]: "is_true (sql_eq (ncol f (Some m)) (Some v)) \<longleftrightarrow> f m = Some v"
  by (simp add: is_true_def sql_eq_def ncol_def split: option.splits)

lemma is_true_le_col [simp]: "is_true (sql_le (col f (Some m)) (Some v)) \<longleftrightarrow> f m \<le> v"
  by (simp add: is_true_def sql_le_def col_def)

lemma null_row_conditions [simp]:
  "sql_eq (col f None) v = None" "sql_eq (ncol g None) v = None" "sql_le (col h None) w = None"
  by (simp_all add: sql_eq_def sql_le_def col_def ncol_def)

lemma on_team1_iff [simp]: "is_true (on_team1 pid (Some m)) \<longleftrightarrow> team1 pid m"
  by (simp add: on_team1_def team1_def)

lemma on_team2_iff [simp]: "is_true (on_team2 pid (Some m)) \<longleftrightarrow> team2 pid m"
  by (simp add: on_team2_def team2_def)

lemma in_any_slot_iff [simp]: "is_true (in_any_slot pid (Some m)) \<longleftrightarrow> plays pid m"
  by (auto simp: in_any_slot_def plays_def team1_def team2_def)

lemma win_cond_iff:
  "is_true (win_cond pid (Some m)) \<longleftrightarrow>
     (winning_team m = 1 \<and> team1 pid m) \<or> (winning_team m = 2 \<and> team2 pid m)"
  by (simp add: win_cond_def)

lemma loss_cond_iff:
  "is_true (loss_cond pid (Some m)) \<longleftrightarrow>
     (winning_team m = 2 \<and> team1 pid m) \<or> (winning_team m = 1 \<and> team2 pid m)"
  by (simp add: loss_cond_def)

lemma null_row_not_counted [simp]:
  "\<not> is_true (win_cond pid None)" "\<not> is_true (loss_cond pid None)"
  "\<not> is_true (in_any_slot pid None)"
  by (simp_all add: win_cond_def loss_cond_def in_any_slot_def on_team1_def on_team2_def)

section \<open>The rows of a statistics query\<close>

lemma count_case_left_join:
  assumes "\<not> is_true (c None)"
  shows "count_case c (left_join on ms) =
         length (filter (\<lambda>m. is_true (c (Some m))) (filter (\<lambda>m. is_true (on (Some m))) ms))"
proof (cases "filter (\<lambda>m. is_true (on (Some m))) ms")
  case Nil
  with assms show ?thesis
    by (simp add: count_case_def left_join_def)
next
  case (Cons r rs)
  have "count_case c (map Some (r # rs)) = length (filter (\<lambda>m. is_true (c (Some m))) (r # rs))"
    unfolding count_case_def filter_map by (simp add: comp_def)
  with Cons show ?thesis
    by (simp add: left_join_def)
qed

lemma count_not_null_left_join:
  "count_case (\<lambda>r. sql_is_not_null (col match_id r)) (left_join on ms) =
   length (filter (\<lambda>m. is_true (on (Some m))) ms)"
proof -
  have "\<not> is_true (sql_is_not_null (col match_id None))"
    by (simp add: sql_is_not_null_def col_def is_true_def)
  then have "count_case (\<lambda>r. sql_is_not_null (col match_id r)) (left_join on ms) =
     length (filter (\<lambda>m. is_true (sql_is_not_null (col match_id (Some m))))
        (filter (\<lambda>m. is_true (on (Some m))) ms))"
    by (rule count_case_left_join)
  then show ?thesis
    by (simp add: sql_is_not_null_def col_def is_true_def)
qed

text \<open>The join condition of each statistics query, read two-valued.\<close>

lemma stats_query_player_stats:
  "\<exists>on. stats_query sc db = player_stats on db \<and>
        (\<forall>pid m. is_true (on pid (Some m)) \<longleftrightarrow> plays pid m \<and> in_scope sc m)"
proof (cases sc)
  case Lifetime
  then show ?thesis
    by (intro exI [of _ in_any_slot]) (simp add: getPlayerStatsLifetime_def)
next
  case (BySeason seasonId)
  then show ?thesis
    by (intro exI [of _ "\<lambda>pid r. sql_and (in_any_slot pid r) (sql_eq (col season_id r) (Some seasonId))"])
       (simp add: getPlayerStatsBySeason_def)
next
  case (ByPlayDate d)
  then show ?thesis
    by (intro exI [of _ "\<lambda>pid r. sql_and (in_any_slot pid r) (sql_le (col play_date r) (Some d))"])
       (simp add: getPlayerStatsByPlayDate_def)
next
  case (BySpecificDate d)
  then show ?thesis
    by (intro exI [of _ "\<lambda>pid r. sql_and (in_any_slot pid r) (sql_eq (col play_date r) (Some d))"])
       (simp add: getPlayerStatsBySpecificDate_def)
qed

lemma select_stats_left_join:
  assumes "\<forall>m. is_true (on (Some m)) \<longleftrightarrow> plays (player_id p) m \<and> in_scope sc m"
  shows "select_stats p (left_join on (matches db)) = stat_row sc db p"
proof -
  have f: "filter (\<lambda>m. is_true (on (Some m))) (matches db) = matches_of sc (player_id p) db"
    using assms by (simp add: matches_of_def)
  show ?thesis
    by (simp add: select_stats_def stat_row_def Let_def count_case_left_join
        count_not_null_left_join f)
qed

lemma stats_query_rows_eq:
  "mset (stats_query sc db) = mset (map (stat_row sc db) (players db))"
proof -
  obtain on where q: "stats_query sc db = player_stats on db"
    and on: "\<forall>pid m. is_true (on pid (Some m)) \<longleftrightarrow> plays pid m \<and> in_scope sc m"
    using stats_query_player_stats by blast
  have "map (\<lambda>p. select_stats p (left_join (on (player_id p)) (matches db))) (players db) =
        map (stat_row sc db) (players db)"
    using on by (intro map_cong refl select_stats_left_join) simp
  then show ?thesis
    by (simp only: q player_stats_def mset_order_by)
qed

lemma set_stats_query: "set (stats_query sc db) = stat_row sc db ` set (players db)"
  using stats_query_rows_eq [of sc db] by (metis set_mset_mset set_map)


lemma length_filter_split:
  assumes "\<forall>x \<in> set xs. P x \<noteq> Q x"
  shows "length (filter P xs) + length (filter Q xs) = length xs"
  using assms by (induction xs) auto

lemma sql_round_nonneg:
  assumes "0 \<le> x"
  shows "sql_round x 1 = of_int \<lfloor>x * 10 + 1 / 2\<rfloor> / 10"
proof (cases "x = 0")
  case True
  then show ?thesis by (simp add: sql_round_def floor_eq_iff)
next
  case False
  with assms have "0 < x" by simp
  then show ?thesis by (simp add: sql_round_def)
qed

lemma percentage_bounds:
  fixes w l :: nat
  assumes "0 < w + l"
  defines "q \<equiv> (of_nat w * 100 / of_nat (w + l) :: rat)"
  shows "0 \<le> q" "q \<le> 100" "0 \<le> sql_round q 1" "sql_round q 1 \<le> 100"
proof -
  have pos: "(0::rat) < of_nat (w + l)" using assms(1) by (simp only: of_nat_0_less_iff)
  show q0: "0 \<le> q" unfolding q_def by simp
  have "(of_nat w :: rat) \<le> of_nat (w + l)" by simp
  then have "(of_nat w :: rat) * 100 \<le> 100 * of_nat (w + l)" by simp
  then show q100: "q \<le> 100" unfolding q_def using pos by (simp add: pos_divide_le_eq)
  have r: "sql_round q 1 = of_int \<lfloor>q * 10 + 1 / 2\<rfloor> / 10"
    using q0 by (rule sql_round_nonneg)
  have "0 \<le> \<lfloor>q * 10 + 1 / 2\<rfloor>" using q0 by simp
  then show "0 \<le> sql_round q 1" unfolding r by simp
  have "q * 10 + 1 / 2 < 1001" using q100 by simp
  then have "\<lfloor>q * 10 + 1 / 2\<rfloor> < 1001" by (simp add: floor_less_iff)
  then have "\<lfloor>q * 10 + 1 / 2\<rfloor> \<le> 1000" by simp
  then have "(of_int \<lfloor>q * 10 + 1 / 2\<rfloor> :: rat) \<le> 1000" by (metis of_int_le_iff of_int_numeral)
  then show "sql_round q 1 \<le> 100" unfolding r by simp
qed

section \<open>Points and the money lost\<close>

lemma stats_query_rows:
  assumes "s \<in> set (stats_query sc db)"
  shows "\<exists>p rs. s = select_stats p rs"
  using assms
  by (cases sc)
     (auto simp: getPlayerStatsLifetime_def getPlayerStatsBySeason_def
        getPlayerStatsByPlayDate_def getPlayerStatsBySpecificDate_def
        player_stats_def set_order_by)

text \<open>
  C3. Every row of every statistics query has \<open>points = wins * 4 + losses * 1\<close> and
  \<open>money_lost = losses * 20000\<close>.
\<close>

theorem points_and_money_lost:
  "\<forall>s \<in> set (stats_query sc db).
     points s = wins s * 4 + losses s * 1 \<and> money_lost s = losses s * 20000"
proof
  fix s
  assume "s \<in> set (stats_query sc db)"
  then obtain p rs where "s = select_stats p rs"
    using stats_query_rows by blast
  then show "points s = wins s * 4 + losses s * 1 \<and> money_lost s = losses s * 20000"
    by (simp add: select_stats_def Let_def)
qed

theorem points_and_money_lost_witness:
  "hd (getPlayerStatsLifetime demo_db) \<in> set (stats_query Lifetime demo_db) \<and>
   points (hd (getPlayerStatsLifetime demo_db)) = 2 * 4 + 1 * 1 \<and>
   money_lost (hd (getPlayerStatsLifetime demo_db)) = 1 * 20000"
proof -
  let ?s = "hd (getPlayerStatsLifetime demo_db)"
  have mem: "?s \<in> set (stats_query Lifetime demo_db)"
    by (simp add: demo_stats_lifetime)
  with points_and_money_lost [of Lifetime demo_db]
  have "points ?s = wins ?s * 4 + losses ?s * 1 \<and> money_lost ?s = losses ?s * 20000"
    by blast
  with mem show ?thesis
    by (simp add: demo_stats_lifetime)
qed

section \<open>The win percentage\<close>

text \<open>
  C4. In every row of every statistics query \<open>win_percentage\<close> is 0 when
  \<open>wins + losses = 0\<close>; otherwise it is \<open>wins / (wins + losses) * 100\<close> rounded to one
  decimal place, a half upwards (the integer part of ten times the value plus one
  half, in tenths); and it always lies between 0 and 100.
\<close>

theorem win_percentage_rounded:
  "\<forall>s \<in> set (stats_query sc db).
     (wins s + losses s = 0 \<longrightarrow> win_percentage s = 0) \<and>
     (wins s + losses s > 0 \<longrightarrow>
        win_percentage s =
          of_int \<lfloor>(of_nat (wins s) / of_nat (wins s + losses s) * 100 * 10 + 1 / 2 :: rat)\<rfloor> / 10) \<and>
     0 \<le> win_percentage s \<and> win_percentage s \<le> 100"
proof
  fix s
  assume "s \<in> set (stats_query sc db)"
  then obtain p where s: "s = stat_row sc db p"
    by (auto simp: set_stats_query)
  show "(wins s + losses s = 0 \<longrightarrow> win_percentage s = 0) \<and>
     (wins s + losses s > 0 \<longrightarrow>
        win_percentage s =
          of_int \<lfloor>(of_nat (wins s) / of_nat (wins s + losses s) * 100 * 10 + 1 / 2 :: rat)\<rfloor> / 10) \<and>
     0 \<le> win_percentage s \<and> win_percentage s \<le> 100"
  proof (cases "wins s + losses s = 0")
    case True
    then show ?thesis by (simp add: s stat_row_def Let_def)
  next
    case False
    then have pos: "0 < wins s + losses s" by simp
    let ?q = "(of_nat (wins s) * 100 / of_nat (wins s + losses s) :: rat)"
    have wp: "win_percentage s = sql_round ?q 1"
      using pos by (simp add: s stat_row_def Let_def)
    have "sql_round ?q 1 = of_int \<lfloor>?q * 10 + 1 / 2\<rfloor> / 10"
      using percentage_bounds(1) [OF pos] by (rule sql_round_nonneg)
    moreover have "?q = of_nat (wins s) / of_nat (wins s + losses s) * 100"
      by simp
    ultimately have "win_percentage s =
        of_int \<lfloor>(of_nat (wins s) / of_nat (wins s + losses s) * 100 * 10 + 1 / 2 :: rat)\<rfloor> / 10"
      unfolding wp by (simp only:)
    moreover have "0 \<le> win_percentage s" "win_percentage s \<le> 100"
      using percentage_bounds(3,4) [OF pos] wp by simp_all
    ultimately show ?thesis using False pos by blast
  qed
qed

theorem win_percentage_rounded_witness:
  "hd (getPlayerStatsLifetime demo_db) \<in> set (stats_query Lifetime demo_db) \<and>
   wins (hd (getPlayerStatsLifetime demo_db)) = 2 \<and>
   losses (hd (getPlayerStatsLifetime demo_db)) = 1 \<and>
   win_percentage (hd (getPlayerStatsLifetime demo_db)) =
     of_int \<lfloor>(of_nat 2 / of_nat (2 + 1) * 100 * 10 + 1 / 2 :: rat)\<rfloor> / 10 \<and>
   win_percentage (hd (getPlayerStatsLifetime demo_db)) = 667 / 10"
proof -
  let ?s = "hd (getPlayerStatsLifetime demo_db)"
  have mem: "?s \<in> set (stats_query Lifetime demo_db)"
    by (simp add: demo_stats_lifetime)
  have w: "wins ?s = 2" and l: "losses ?s = 1"
    by (simp_all add: demo_stats_lifetime)
  note row = bspec [OF win_percentage_rounded [of Lifetime demo_db] mem]
  have "0 < wins ?s + losses ?s"
    by (simp add: w l)
  with row [THEN conjunct2, THEN conjunct1]
  have "win_percentage ?s =
          of_int \<lfloor>(of_nat (wins ?s) / of_nat (wins ?s + losses ?s) * 100 * 10 + 1 / 2 :: rat)\<rfloor> / 10"
    by (rule mp)
  then have "win_percentage ?s =
          of_int \<lfloor>(of_nat 2 / of_nat (2 + 1) * 100 * 10 + 1 / 2 :: rat)\<rfloor> / 10"
    unfolding w l by (simp only: of_nat_numeral)
  moreover have "win_percentage ?s = 667 / 10"
    by (simp add: demo_stats_lifetime)
  ultimately show ?thesis
    using mem w l by blast
qed

section \<open>The roster in every scope\<close>

text \<open>
  C5. Every statistics query returns one row per roster player, under the player's id
  and name; and the row of a player with no match in the scope (none at all, or only
  matches of other seasons or dates) has \<open>wins\<close>, \<open>losses\<close>, \<open>total_matches\<close>,
  \<open>points\<close>, \<open>win_percentage\<close> and \<open>money_lost\<close> all 0.
\<close>

theorem roster_and_zero_rows:
  "mset (map (\<lambda>s. (ps_id s, ps_name s)) (stats_query sc db)) =
     mset (map (\<lambda>p. (player_id p, player_name p)) (players db)) \<and>
   (\<forall>p \<in> set (players db). matches_of sc (player_id p) db = [] \<longrightarrow>
      \<lparr>ps_id = player_id p, ps_name = player_name p, wins = 0, losses = 0,
       total_matches = 0, points = 0, win_percentage = 0, money_lost = 0\<rparr>
        \<in> set (stats_query sc db))"
proof
  have "mset (map (\<lambda>s. (ps_id s, ps_name s)) (stats_query sc db)) =
        image_mset (\<lambda>s. (ps_id s, ps_name s)) (mset (stats_query sc db))"
    by simp
  also have "\<dots> = image_mset (\<lambda>s. (ps_id s, ps_name s)) (mset (map (stat_row sc db) (players db)))"
    by (simp only: stats_query_rows_eq)
  also have "\<dots> = mset (map (\<lambda>p. (player_id p, player_name p)) (players db))"
    by (simp add: image_mset.compositionality comp_def stat_row_def Let_def)
  finally show "mset (map (\<lambda>s. (ps_id s, ps_name s)) (stats_query sc db)) =
     mset (map (\<lambda>p. (player_id p, player_name p)) (players db))" .
next
  show "\<forall>p \<in> set (players db). matches_of sc (player_id p) db = [] \<longrightarrow>
      \<lparr>ps_id = player_id p, ps_name = player_name p, wins = 0, losses = 0,
       total_matches = 0, points = 0, win_percentage = 0, money_lost = 0\<rparr>
        \<in> set (stats_query sc db)"
  proof (intro ballI impI)
    fix p
    assume p: "p \<in> set (players db)" and none: "matches_of sc (player_id p) db = []"
    have "stat_row sc db p =
      \<lparr>ps_id = player_id p, ps_name = player_name p, wins = 0, losses = 0,
       total_matches = 0, points = 0, win_percentage = 0, money_lost = 0\<rparr>"
      by (simp add: stat_row_def none)
    with p show "\<lparr>ps_id = player_id p, ps_name = player_name p, wins = 0, losses = 0,
       total_matches = 0, points = 0, win_percentage = 0, money_lost = 0\<rparr>
        \<in> set (stats_query sc db)"
      by (metis set_stats_query imageI)
  qed
qed

theorem roster_and_zero_rows_witness:
  "\<lparr>player_id = 4, player_name = ''Dung''\<rparr> \<in> set (players demo_db) \<and>
   matches_of (BySeason 1) 4 demo_db = [] \<and>
   matches_of Lifetime 4 demo_db \<noteq> [] \<and>
   \<lparr>ps_id = 4, ps_name = ''Dung'', wins = 0, losses = 0, total_matches = 0, points = 0,
    win_percentage = 0, money_lost = 0\<rparr> \<in> set (stats_query (BySeason 1) demo_db)"
proof -
  let ?p = "\<lparr>player_id = 4, player_name = ''Dung''\<rparr>"
  have p: "?p \<in> set (players demo_db)"
    by (simp add: demo_eval)
  have none: "matches_of (BySeason 1) (player_id ?p) demo_db = []"
    by (simp add: matches_of_def plays_def team1_def team2_def demo_eval)
  have some: "matches_of Lifetime 4 demo_db \<noteq> []"
    by (simp add: matches_of_def plays_def team1_def team2_def demo_eval)
  from roster_and_zero_rows [of "BySeason 1" demo_db] p none
  have "\<lparr>ps_id = player_id ?p, ps_name = player_name ?p, wins = 0, losses = 0,
         total_matches = 0, points = 0, win_percentage = 0, money_lost = 0\<rparr>
          \<in> set (stats_query (BySeason 1) demo_db)"
    by blast
  with p none some show ?thesis by simp
qed

section \<open>Wins, losses and the matches played\<close>

text \<open>
  C7, as the code has it. When every stored match has \<open>winning_team\<close> 1 or 2 and no
  match holds the same player in a slot of team 1 and in a slot of team 2, every row
  of every statistics query has \<open>wins + losses = total_matches\<close>.
\<close>

theorem wins_plus_losses:
  assumes wt: "\<forall>m \<in> set (matches db). winning_team m = 1 \<or> winning_team m = 2"
    and one_team: "\<forall>m \<in> set (matches db). \<forall>pid. \<not> (team1 pid m \<and> team2 pid m)"
  shows "\<forall>s \<in> set (stats_query sc db). wins s + losses s = total_matches s"
proof
  fix s
  assume "s \<in> set (stats_query sc db)"
  then obtain p where s: "s = stat_row sc db p"
    by (auto simp: set_stats_query)
  let ?ms = "matches_of sc (player_id p) db"
  have "\<forall>m \<in> set ?ms.
          is_true (win_cond (player_id p) (Some m)) \<noteq> is_true (loss_cond (player_id p) (Some m))"
  proof
    fix m
    assume "m \<in> set ?ms"
    then have m: "m \<in> set (matches db)" and pl: "plays (player_id p) m"
      by (simp_all add: matches_of_def)
    from wt m have "winning_team m = 1 \<or> winning_team m = 2" by blast
    moreover from one_team m have "\<not> (team1 (player_id p) m \<and> team2 (player_id p) m)" by blast
    ultimately show
      "is_true (win_cond (player_id p) (Some m)) \<noteq> is_true (loss_cond (player_id p) (Some m))"
      using pl by (auto simp: win_cond_iff loss_cond_iff plays_def)
  qed
  then have "length (filter (\<lambda>m. is_true (win_cond (player_id p) (Some m))) ?ms) +
             length (filter (\<lambda>m. is_true (loss_cond (player_id p) (Some m))) ?ms) = length ?ms"
    by (rule length_filter_split)
  then show "wins s + losses s = total_matches s"
    by (simp add: s stat_row_def Let_def)
qed

theorem wins_plus_losses_witness:
  "hd (getPlayerStatsLifetime demo_db) \<in> set (stats_query Lifetime demo_db) \<and>
   wins (hd (getPlayerStatsLifetime demo_db)) + losses (hd (getPlayerStatsLifetime demo_db)) = 3 \<and>
   total_matches (hd (getPlayerStatsLifetime demo_db)) = 3"
proof -
  let ?s = "hd (getPlayerStatsLifetime demo_db)"
  have wt: "\<forall>m \<in> set (matches demo_db). winning_team m = 1 \<or> winning_team m = 2"
    by (simp add: demo_eval)
  have one_team: "\<forall>m \<in> set (matches demo_db). \<forall>pid. \<not> (team1 pid m \<and> team2 pid m)"
    by (auto simp: demo_eval team1_def team2_def)
  have mem: "?s \<in> set (stats_query Lifetime demo_db)"
    by (simp add: demo_stats_lifetime)
  with wins_plus_losses [OF wt one_team, of Lifetime]
  have "wins ?s + losses ?s = total_matches ?s"
    by blast
  with mem show ?thesis
    by (simp add: demo_stats_lifetime)
qed

text \<open>
  With \<open>winning_team\<close> 1 or 2 alone the equality fails: in \<open>crossed_match\<close> player 1
  holds slot 1 and slot 4, the match counts as a win and as a loss, and as one match.
  Every player of the match is on the roster.
\<close>

theorem wins_plus_losses_counterexample:
  "winning_team crossed_match = 1 \<and>
   matches crossed_db = [crossed_match] \<and>
   map player_id (players crossed_db) = [1, 2, 3] \<and>
   player1_id crossed_match = 1 \<and> player2_id crossed_match = Some 2 \<and>
   player3_id crossed_match = 3 \<and> player4_id crossed_match = Some 1 \<and>
   hd (getPlayerStatsLifetime crossed_db) \<in> set (stats_query Lifetime crossed_db) \<and>
   ps_id (hd (getPlayerStatsLifetime crossed_db)) = 1 \<and>
   wins (hd (getPlayerStatsLifetime crossed_db)) + losses (hd (getPlayerStatsLifetime crossed_db)) = 2 \<and>
   total_matches (hd (getPlayerStatsLifetime crossed_db)) = 1"
  by (simp add: crossed_stats_lifetime) (simp add: crossed_db_def crossed_match_def)

section \<open>The order of a ranking\<close>

lemma ranked_iff_sorted: "ranked le xs \<longleftrightarrow> sorted_wrt (stats_order le) xs"
  unfolding ranked_def sorted_wrt_iff_nth_less stats_order_iff by blast

lemma ranked_player_stats:
  assumes "linear_collation (collation db)"
  shows "ranked (collation db) (player_stats on db)"
  unfolding ranked_iff_sorted player_stats_def
  by (rule sorted_wrt_order_by [OF stats_order_total [OF assms] stats_order_trans [OF assms]])

lemma truncate_with_form: "player_stat.truncate (with_form s f) = s"
  by (simp add: with_form_def player_stat.truncate_def player_stat.extend_def)

lemma stats_order_with_form:
  "stats_order le (with_form a f) (with_form b g) = stats_order le a b"
  by (simp add: stats_order_def with_form_def player_stat.extend_def)

lemma form_with_form: "form (with_form s f) = f"
  by (simp add: with_form_def player_stat.extend_def)

lemma ranked_with_form:
  assumes "ranked le xs"
  shows "ranked le (map (\<lambda>player. with_form player (f player)) xs)"
  using assms unfolding ranked_iff_sorted
  by (simp add: sorted_wrt_map stats_order_with_form)

lemma truncate_map_with_form:
  "map player_stat.truncate (map (\<lambda>player. with_form player (f player)) xs) = xs"
  by (simp add: comp_def truncate_with_form)

lemma form_map_with_form:
  "map form (map (\<lambda>player. with_form player (f player)) xs) = map f xs"
  by (simp add: comp_def form_with_form)

text \<open>
  C1. Whatever collation the database compares names with (any two names are
  comparable, and the comparison is transitive): the list each of the three ranking
  queries returns is ranked (points descending, ties by win percentage descending,
  remaining ties by name ascending in that collation), before and after the form is
  attached; attaching the form keeps every statistics field and the order of the
  rows (cutting the form off again gives the statistics list back), and the form
  attached to a row is the player's form of the same scope.
\<close>

theorem ranking_order:
  assumes "linear_collation (collation db)"
  shows
  "ranked (collation db) (getPlayerStatsLifetime db) \<and>
   ranked (collation db) (lifetime_rankings db) \<and>
   map player_stat.truncate (lifetime_rankings db) = getPlayerStatsLifetime db \<and>
   map form (lifetime_rankings db) =
     map (\<lambda>player. getPlayerForm db (ps_id player) 5) (getPlayerStatsLifetime db) \<and>
   ranked (collation db) (getPlayerStatsBySeason db seasonId) \<and>
   ranked (collation db) (season_rankings db seasonId) \<and>
   map player_stat.truncate (season_rankings db seasonId) = getPlayerStatsBySeason db seasonId \<and>
   map form (season_rankings db seasonId) =
     map (\<lambda>player. getPlayerFormBySeason db (ps_id player) seasonId 5)
       (getPlayerStatsBySeason db seasonId) \<and>
   ranked (collation db) (getPlayerStatsBySpecificDate db d) \<and>
   ranked (collation db) (date_rankings db d) \<and>
   map player_stat.truncate (date_rankings db d) = getPlayerStatsBySpecificDate db d \<and>
   map form (date_rankings db d) =
     map (\<lambda>player. getPlayerFormBySpecificDate db (ps_id player) d 5)
       (getPlayerStatsBySpecificDate db d)"
proof -
  have l: "ranked (collation db) (getPlayerStatsLifetime db)"
    unfolding getPlayerStatsLifetime_def using assms by (rule ranked_player_stats)
  have s: "ranked (collation db) (getPlayerStatsBySeason db seasonId)"
    unfolding getPlayerStatsBySeason_def using assms by (rule ranked_player_stats)
  have t: "ranked (collation db) (getPlayerStatsBySpecificDate db d)"
    unfolding getPlayerStatsBySpecificDate_def using assms by (rule ranked_player_stats)
  from l have l': "ranked (collation db) (lifetime_rankings db)"
    unfolding lifetime_rankings_def by (rule ranked_with_form)
  from s have s': "ranked (collation db) (season_rankings db seasonId)"
    unfolding season_rankings_def by (rule ranked_with_form)
  from t have t': "ranked (collation db) (date_rankings db d)"
    unfolding date_rankings_def by (rule ranked_with_form)
  have lt: "map player_stat.truncate (lifetime_rankings db) = getPlayerStatsLifetime db"
    unfolding lifetime_rankings_def by (rule truncate_map_with_form)
  have st: "map player_stat.truncate (season_rankings db seasonId) =
            getPlayerStatsBySeason db seasonId"
    unfolding season_rankings_def by (rule truncate_map_with_form)
  have tt: "map player_stat.truncate (date_rankings db d) = getPlayerStatsBySpecificDate db d"
    unfolding date_rankings_def by (rule truncate_map_with_form)
  have lf: "map form (lifetime_rankings db) =
     map (\<lambda>player. getPlayerForm db (ps_id player) 5) (getPlayerStatsLifetime db)"
    unfolding lifetime_rankings_def by (rule form_map_with_form)
  have sf: "map form (season_rankings db seasonId) =
     map (\<lambda>player. getPlayerFormBySeason db (ps_id player) seasonId 5)
       (getPlayerStatsBySeason db seasonId)"
    unfolding season_rankings_def by (rule form_map_with_form)
  have tf: "map form (date_rankings db d) =
     map (\<lambda>player. getPlayerFormBySpecificDate db (ps_id player) d 5)
       (getPlayerStatsBySpecificDate db d)"
    unfolding date_rankings_def by (rule form_map_with_form)
  from l l' lt lf s s' st sf t t' tt tf show ?thesis
    by (intro conjI)
qed

theorem ranking_order_witness:
  "linear_collation (collation demo_db) \<and>
   ps_name (season_rankings demo_db 1 ! 1) = ''Binh'' \<and>
   ps_name (season_rankings demo_db 1 ! 2) = ''Chi'' \<and>
   points (season_rankings demo_db 1 ! 2) = points (season_rankings demo_db 1 ! 1) \<and>
   win_percentage (season_rankings demo_db 1 ! 2) = win_percentage (season_rankings demo_db 1 ! 1) \<and>
   collation demo_db (ps_name (season_rankings demo_db 1 ! 1))
     (ps_name (season_rankings demo_db 1 ! 2))"
proof -
  let ?r = "season_rankings demo_db 1"
  have sel: "collation demo_db = (\<lambda>a b. a \<le> b)"
    by (simp add: demo_db_def)
  have lin: "linear_collation (collation demo_db)"
    unfolding sel linear_collation_def by (meson linear order_trans)
  have "ranked (collation demo_db) ?r"
    using ranking_order [OF lin, of 1 0] by blast
  moreover have ij: "(1::nat) < 2 \<and> 2 < length ?r"
    by (simp add: demo_rankings_season)
  ultimately have
    "points (?r ! 2) \<le> points (?r ! 1) \<and>
     (points (?r ! 2) = points (?r ! 1) \<longrightarrow>
        win_percentage (?r ! 2) \<le> win_percentage (?r ! 1) \<and>
        (win_percentage (?r ! 2) = win_percentage (?r ! 1) \<longrightarrow>
           collation demo_db (ps_name (?r ! 1)) (ps_name (?r ! 2))))"
    unfolding ranked_def by blast
  moreover have "points (?r ! 2) = points (?r ! 1)"
    and "win_percentage (?r ! 2) = win_percentage (?r ! 1)"
    and "ps_name (?r ! 1) = ''Binh''" and "ps_name (?r ! 2) = ''Chi''"
    by (simp_all add: demo_rankings_season)
  ultimately show ?thesis using lin by blast
qed

section \<open>Recent form: limit and order\<close>

lemma newest_first_iff: "newest_first ms \<longleftrightarrow> sorted_wrt form_order ms"
proof -
  have "form_order = (\<lambda>a b. play_date b < play_date a \<or>
              (play_date b = play_date a \<and> created_at b \<le> created_at a))"
    by (auto simp: form_order_def fun_eq_iff)
  then show ?thesis by (simp add: newest_first_def)
qed

lemma newest_first_order_by_form: "newest_first (order_by form_order ms)"
  unfolding newest_first_iff
  by (rule sorted_wrt_order_by [OF form_order_total form_order_trans])

lemma newest_first_order_by_created:
  assumes "\<forall>m \<in> set ms. play_date m = d"
  shows "newest_first (order_by created_order ms)"
proof -
  have "sorted_wrt created_order (order_by created_order ms)"
    by (rule sorted_wrt_order_by [OF created_order_total created_order_trans])
  moreover have "form_order x y"
    if "x \<in> set (order_by created_order ms)" "y \<in> set (order_by created_order ms)"
      "created_order x y" for x y
    using that assms by (simp add: set_order_by form_order_def created_order_def)
  ultimately show ?thesis
    unfolding newest_first_iff by (rule sorted_wrt_mono_rel [rotated])
qed

lemma form_rows_matches_of:
  assumes "\<forall>m. is_true (wh (Some m)) \<longleftrightarrow> plays pid m \<and> in_scope sc m"
  shows "form_rows wh ord db n = take n (order_by ord (matches_of sc pid db))"
  using assms by (simp add: form_rows_def matches_of_def)

lemma form_query_rows:
  "\<exists>ord. form_query fs db pid n =
           map (select_form pid) (take n (order_by ord (matches_of (scope_of fs) pid db))) \<and>
         newest_first (order_by ord (matches_of (scope_of fs) pid db))"
proof (cases fs)
  case FormLifetime
  have "form_rows (in_any_slot pid) form_order db n =
        take n (order_by form_order (matches_of Lifetime pid db))"
    by (rule form_rows_matches_of) simp
  with FormLifetime show ?thesis
    by (intro exI [of _ form_order]) (simp add: getPlayerForm_def newest_first_order_by_form)
next
  case (FormBySeason seasonId)
  have "form_rows (\<lambda>r. sql_and (in_any_slot pid r) (sql_eq (col season_id r) (Some seasonId)))
          form_order db n =
        take n (order_by form_order (matches_of (BySeason seasonId) pid db))"
    by (rule form_rows_matches_of) simp
  with FormBySeason show ?thesis
    by (intro exI [of _ form_order])
       (simp add: getPlayerFormBySeason_def newest_first_order_by_form)
next
  case (FormByDate d)
  have "form_rows (\<lambda>r. sql_and (in_any_slot pid r) (sql_le (col play_date r) (Some d)))
          form_order db n =
        take n (order_by form_order (matches_of (ByPlayDate d) pid db))"
    by (rule form_rows_matches_of) simp
  with FormByDate show ?thesis
    by (intro exI [of _ form_order])
       (simp add: getPlayerFormByDate_def newest_first_order_by_form)
next
  case (FormOnSpecificDate d)
  have "form_rows (\<lambda>r. sql_and (in_any_slot pid r) (sql_eq (col play_date r) (Some d)))
          created_order db n =
        take n (order_by created_order (matches_of (BySpecificDate d) pid db))"
    by (rule form_rows_matches_of) simp
  moreover have "newest_first (order_by created_order (matches_of (BySpecificDate d) pid db))"
    by (rule newest_first_order_by_created [of _ d]) (simp add: matches_of_def)
  ultimately show ?thesis
    using FormOnSpecificDate
    by (intro exI [of _ created_order]) (simp add: getPlayerFormOnSpecificDate_def)
next
  case (FormBySpecificDate d)
  have "form_rows (\<lambda>r. sql_and (in_any_slot pid r) (sql_eq (col play_date r) (Some d)))
          form_order db n =
        take n (order_by form_order (matches_of (BySpecificDate d) pid db))"
    by (rule form_rows_matches_of) simp
  with FormBySpecificDate show ?thesis
    by (intro exI [of _ form_order])
       (simp add: getPlayerFormBySpecificDate_def newest_first_order_by_form)
qed

lemma play_dates_descend:
  assumes "newest_first rows"
  shows "sorted_wrt (\<lambda>a b. form_play_date b \<le> form_play_date a)
           (map (select_form pid) (take n rows))"
proof -
  from assms have "sorted_wrt form_order (take n rows)"
    unfolding newest_first_iff by (rule sorted_wrt_take)
  then have "sorted_wrt (\<lambda>a b. play_date b \<le> play_date a) (take n rows)"
    by (rule sorted_wrt_mono_rel [rotated]) (auto simp: form_order_def)
  then show ?thesis
    by (simp add: sorted_wrt_map select_form_def)
qed

text \<open>
  C6. For every form query, player and limit \<open>n\<close>: the answer is read off the first
  \<open>n\<close> of the player's matches of the scope, put newest first (play date descending,
  matches of one day by the time of recording descending); so it has at most \<open>n\<close>
  entries (exactly the smaller of \<open>n\<close> and the number of such matches), its play
  dates descend, and when the player has no more than \<open>n\<close> matches in the scope all
  of them are returned.
\<close>

theorem form_limit_and_order:
  "(\<exists>ordered.
      mset ordered = mset (matches_of (scope_of fs) pid db) \<and>
      newest_first ordered \<and>
      form_query fs db pid n = map (select_form pid) (take n ordered) \<and>
      (length (matches_of (scope_of fs) pid db) \<le> n \<longrightarrow>
         form_query fs db pid n = map (select_form pid) ordered)) \<and>
   length (form_query fs db pid n) \<le> n \<and>
   length (form_query fs db pid n) = min n (length (matches_of (scope_of fs) pid db)) \<and>
   sorted_wrt (\<lambda>a b. form_play_date b \<le> form_play_date a) (form_query fs db pid n)"
proof -
  obtain ord where q: "form_query fs db pid n =
      map (select_form pid) (take n (order_by ord (matches_of (scope_of fs) pid db)))"
    and nf: "newest_first (order_by ord (matches_of (scope_of fs) pid db))"
    using form_query_rows by blast
  let ?ordered = "order_by ord (matches_of (scope_of fs) pid db)"
  have m: "mset ?ordered = mset (matches_of (scope_of fs) pid db)"
    by (rule mset_order_by)
  have len: "length ?ordered = length (matches_of (scope_of fs) pid db)"
    by (rule length_order_by)
  have all: "length (matches_of (scope_of fs) pid db) \<le> n \<longrightarrow>
             form_query fs db pid n = map (select_form pid) ?ordered"
    using q len by simp
  have l: "length (form_query fs db pid n) = min n (length (matches_of (scope_of fs) pid db))"
    using q len by simp
  then have l': "length (form_query fs db pid n) \<le> n"
    by simp
  have s: "sorted_wrt (\<lambda>a b. form_play_date b \<le> form_play_date a) (form_query fs db pid n)"
    unfolding q using nf by (rule play_dates_descend)
  from m nf q all have
    "\<exists>ordered.
      mset ordered = mset (matches_of (scope_of fs) pid db) \<and>
      newest_first ordered \<and>
      form_query fs db pid n = map (select_form pid) (take n ordered) \<and>
      (length (matches_of (scope_of fs) pid db) \<le> n \<longrightarrow>
         form_query fs db pid n = map (select_form pid) ordered)"
    by blast
  with l l' s show ?thesis by blast
qed

theorem form_limit_and_order_witness:
  "length (matches_of (scope_of FormLifetime) 1 demo_db) = 3 \<and>
   length (form_query FormLifetime demo_db 1 2) = min 2 3 \<and>
   form_query FormLifetime demo_db 1 2 =
     [\<lparr>result = ''win'', form_play_date = 101\<rparr>, \<lparr>result = ''loss'', form_play_date = 101\<rparr>] \<and>
   length (form_query FormLifetime demo_db 1 5) = min 5 3"
proof -
  have n: "length (matches_of (scope_of FormLifetime) 1 demo_db) = 3"
    by (simp add: demo_matches_of_An)
  have "length (form_query FormLifetime demo_db 1 2) =
        min 2 (length (matches_of (scope_of FormLifetime) 1 demo_db))"
    using form_limit_and_order [of FormLifetime 1 demo_db 2] by blast
  moreover have "length (form_query FormLifetime demo_db 1 5) =
        min 5 (length (matches_of (scope_of FormLifetime) 1 demo_db))"
    using form_limit_and_order [of FormLifetime 1 demo_db 5] by blast
  moreover have "form_query FormLifetime demo_db 1 2 =
     [\<lparr>result = ''win'', form_play_date = 101\<rparr>, \<lparr>result = ''loss'', form_play_date = 101\<rparr>]"
    by (simp add: demo_form_limit_2)
  ultimately show ?thesis
    using n by simp
qed

section \<open>Win or loss of a player in a match\<close>

lemma length_filter_sum:
  "length (filter P xs) = sum_list (map (\<lambda>x. if P x then 1 else 0) xs)"
  by (induction xs) simp_all

lemma select_stats_one_row:
  "wins (select_stats p [Some m]) =
     (if is_true (win_cond (player_id p) (Some m)) then 1 else 0)"
  "losses (select_stats p [Some m]) =
     (if is_true (loss_cond (player_id p) (Some m)) then 1 else 0)"
  by (simp_all add: select_stats_def Let_def count_case_def)

lemma stat_row_sums:
  "wins (stat_row sc db q) =
     sum_list (map (\<lambda>x. wins (select_stats q [Some x])) (matches_of sc (player_id q) db))"
  "losses (stat_row sc db q) =
     sum_list (map (\<lambda>x. losses (select_stats q [Some x])) (matches_of sc (player_id q) db))"
  by (simp_all add: stat_row_def Let_def length_filter_sum select_stats_one_row)

lemma stats_query_sums:
  "\<forall>s \<in> set (stats_query sc db). \<exists>q \<in> set (players db).
      ps_id s = player_id q \<and>
      wins s =
        sum_list (map (\<lambda>x. wins (select_stats q [Some x])) (matches_of sc (player_id q) db)) \<and>
      losses s =
        sum_list (map (\<lambda>x. losses (select_stats q [Some x])) (matches_of sc (player_id q) db))"
proof
  fix s
  assume "s \<in> set (stats_query sc db)"
  then obtain q where q: "q \<in> set (players db)" and s: "s = stat_row sc db q"
    by (auto simp: set_stats_query)
  have "ps_id s = player_id q"
    by (simp add: s stat_row_def Let_def)
  with q show "\<exists>q \<in> set (players db).
      ps_id s = player_id q \<and>
      wins s =
        sum_list (map (\<lambda>x. wins (select_stats q [Some x])) (matches_of sc (player_id q) db)) \<and>
      losses s =
        sum_list (map (\<lambda>x. losses (select_stats q [Some x])) (matches_of sc (player_id q) db))"
    unfolding s using stat_row_sums [of sc db q] by blast
qed

lemma form_query_entries:
  "\<exists>ordered. mset ordered = mset (matches_of (scope_of fs) pid db) \<and>
      form_query fs db pid n = map (select_form pid) (take n ordered)"
proof -
  obtain ord where "form_query fs db pid n =
      map (select_form pid) (take n (order_by ord (matches_of (scope_of fs) pid db)))"
    using form_query_rows by blast
  moreover have "mset (order_by ord (matches_of (scope_of fs) pid db)) =
      mset (matches_of (scope_of fs) pid db)"
    by (rule mset_order_by)
  ultimately show ?thesis by blast
qed

text \<open>
  C2, as the code has it. For a match with \<open>winning_team\<close> 1 or 2 and a player who
  holds a slot of exactly one team, the statistics select over the joined match and
  the select list of the form give: on team 1 with \<open>winning_team = 1\<close> one win, no
  loss and the form \<open>win\<close>; on team 1 with \<open>winning_team = 2\<close> one loss, no win and the
  form \<open>loss\<close>; on team 2 with \<open>winning_team = 2\<close> a win; on team 2 with
  \<open>winning_team = 1\<close> a loss. Every statistics query sums these counts over the
  player's matches of the scope, and every form query reads its entries off the
  player's matches of the scope with that select list.
\<close>

theorem outcome_classification:
  assumes "winning_team m = 1 \<or> winning_team m = 2"
    and "plays (player_id p) m"
    and "\<not> (team1 (player_id p) m \<and> team2 (player_id p) m)"
  shows "(team1 (player_id p) m \<and> winning_team m = 1 \<longrightarrow>
            wins (select_stats p [Some m]) = 1 \<and> losses (select_stats p [Some m]) = 0 \<and>
            result (select_form (player_id p) m) = ''win'') \<and>
         (team1 (player_id p) m \<and> winning_team m = 2 \<longrightarrow>
            wins (select_stats p [Some m]) = 0 \<and> losses (select_stats p [Some m]) = 1 \<and>
            result (select_form (player_id p) m) = ''loss'') \<and>
         (team2 (player_id p) m \<and> winning_team m = 2 \<longrightarrow>
            wins (select_stats p [Some m]) = 1 \<and> losses (select_stats p [Some m]) = 0 \<and>
            result (select_form (player_id p) m) = ''win'') \<and>
         (team2 (player_id p) m \<and> winning_team m = 1 \<longrightarrow>
            wins (select_stats p [Some m]) = 0 \<and> losses (select_stats p [Some m]) = 1 \<and>
            result (select_form (player_id p) m) = ''loss'') \<and>
         (\<forall>s \<in> set (stats_query sc db). \<exists>q \<in> set (players db).
            ps_id s = player_id q \<and>
            wins s =
              sum_list (map (\<lambda>x. wins (select_stats q [Some x]))
                (matches_of sc (player_id q) db)) \<and>
            losses s =
              sum_list (map (\<lambda>x. losses (select_stats q [Some x]))
                (matches_of sc (player_id q) db))) \<and>
         (\<exists>ordered. mset ordered = mset (matches_of (scope_of fs) pid db) \<and>
            form_query fs db pid n = map (select_form pid) (take n ordered))"
proof -
  have c1: "team1 (player_id p) m \<and> winning_team m = 1 \<longrightarrow>
            wins (select_stats p [Some m]) = 1 \<and> losses (select_stats p [Some m]) = 0 \<and>
            result (select_form (player_id p) m) = ''win''"
    using assms
    by (auto simp: select_stats_one_row select_form_def win_cond_iff loss_cond_iff)
  have c2: "team1 (player_id p) m \<and> winning_team m = 2 \<longrightarrow>
            wins (select_stats p [Some m]) = 0 \<and> losses (select_stats p [Some m]) = 1 \<and>
            result (select_form (player_id p) m) = ''loss''"
    using assms
    by (auto simp: select_stats_one_row select_form_def win_cond_iff loss_cond_iff)
  have c3: "team2 (player_id p) m \<and> winning_team m = 2 \<longrightarrow>
            wins (select_stats p [Some m]) = 1 \<and> losses (select_stats p [Some m]) = 0 \<and>
            result (select_form (player_id p) m) = ''win''"
    using assms
    by (auto simp: select_stats_one_row select_form_def win_cond_iff loss_cond_iff)
  have c4: "team2 (player_id p) m \<and> winning_team m = 1 \<longrightarrow>
            wins (select_stats p [Some m]) = 0 \<and> losses (select_stats p [Some m]) = 1 \<and>
            result (select_form (player_id p) m) = ''loss''"
    using assms
    by (auto simp: select_stats_one_row select_form_def win_cond_iff loss_cond_iff)
  from c1 c2 c3 c4 stats_query_sums [of sc db] form_query_entries [of fs pid db n]
  show ?thesis
    by (intro conjI)
qed

theorem outcome_classification_witness:
  "winning_team (hd demo_matches) = 1 \<and> team1 1 (hd demo_matches) \<and>
   \<not> team2 1 (hd demo_matches) \<and>
   wins (select_stats \<lparr>player_id = 1, player_name = ''An''\<rparr> [Some (hd demo_matches)]) = 1 \<and>
   losses (select_stats \<lparr>player_id = 1, player_name = ''An''\<rparr> [Some (hd demo_matches)]) = 0 \<and>
   result (select_form 1 (hd demo_matches)) = ''win''"
proof -
  let ?m = "hd demo_matches"
  let ?p = "\<lparr>player_id = 1, player_name = ''An''\<rparr>"
  have wt: "winning_team ?m = 1 \<or> winning_team ?m = 2"
    by (simp add: demo_matches_def)
  have t1: "team1 (player_id ?p) ?m" and t2: "\<not> team2 (player_id ?p) ?m"
    by (simp_all add: demo_matches_def team1_def team2_def)
  have pl: "plays (player_id ?p) ?m"
    using t1 by (simp add: plays_def)
  have one: "\<not> (team1 (player_id ?p) ?m \<and> team2 (player_id ?p) ?m)"
    using t2 by simp
  have w1: "winning_team ?m = 1"
    by (simp add: demo_matches_def)
  note first = outcome_classification [OF wt pl one, THEN conjunct1]
  have "wins (select_stats ?p [Some ?m]) = 1 \<and> losses (select_stats ?p [Some ?m]) = 0 \<and>
        result (select_form (player_id ?p) ?m) = ''win''"
    by (rule mp [OF first conjI [OF t1 w1]])
  with w1 t1 t2 show ?thesis by simp
qed

text \<open>
  For a player in slots of both teams the fourth case fails for the form: player 1 of
  \<open>crossed_match\<close> is on team 2, \<open>winning_team\<close> is 1, and the form says \<open>win\<close>, in
  the select list and in the answer of the form query.
\<close>

theorem outcome_classification_counterexample:
  "winning_team crossed_match = 1 \<and> plays 1 crossed_match \<and> team2 1 crossed_match \<and>
   result (select_form 1 crossed_match) = ''win'' \<and>
   result (select_form 1 crossed_match) \<noteq> ''loss'' \<and>
   map player_id (players crossed_db) = [1, 2, 3] \<and>
   matches crossed_db = [crossed_match] \<and>
   getPlayerForm crossed_db 1 5 = [\<lparr>result = ''win'', form_play_date = 100\<rparr>]"
  by (simp add: crossed_form crossed_form_lifetime)
     (simp add: crossed_db_def crossed_match_def plays_def team2_def)

section \<open>Cache keys\<close>

lemma string_to_number_snoc:
  "string_to_number (s @ [ch]) = 10 * string_to_number s + (of_char ch - 48)"
  by (simp add: string_to_number_def)

lemma string_to_number_to_string: "string_to_number (number_to_string n) = n"
proof (induction n rule: number_to_string.induct)
  case (1 n)
  show ?case
  proof (cases "n < 10")
    case True
    then show ?thesis
      by (simp add: number_to_string.simps [of n] string_to_number_def)
  next
    case False
    have "n mod 10 < 10" by simp
    then have d: "of_char (char_of (48 + n mod 10) :: char) = 48 + n mod 10"
      by (simp add: mod_if)
    from False have "number_to_string n =
        number_to_string (n div 10) @ [char_of (48 + n mod 10)]"
      by (simp add: number_to_string.simps [of n])
    then have "string_to_number (number_to_string n) =
        10 * string_to_number (number_to_string (n div 10)) + n mod 10"
      by (simp add: string_to_number_snoc d)
    with 1 [OF False] show ?thesis by simp
  qed
qed

lemma number_to_string_inj: "number_to_string a = number_to_string b \<Longrightarrow> a = b"
  by (metis string_to_number_to_string)

section \<open>What a request stores\<close>

text \<open>
  C8. With the scoped cache and a request that misses it: the lifetime handler
  answers MISS and leaves the computed ranking under \<open>rankings:lifetime\<close> with expiry
  now + 10 minutes; the season handler under \<open>rankings:season:\<close> followed by the
  season id, with now + 3 minutes; the date handler under \<open>rankings:date:\<close> followed
  by the date, with now + 15 minutes (for a season id and a date the database
  accepts); no other entry changes. Keys of different scopes are different.
\<close>

theorem stored_under_scope_key:
  "(fst (scoped_get c ''rankings:lifetime'') = None \<longrightarrow>
      rankings_lifetime scoped_cache_ops db c =
        (Json ''MISS'' ''rankings:lifetime'' (lifetime_rankings db),
         c\<lparr>entries := (entries c)(''rankings:lifetime'' \<mapsto>
              (lifetime_rankings db, now c + 10 * 60 * 1000))\<rparr>)) \<and>
   (fst (scoped_get c (''rankings:season:'' @ number_to_string seasonId)) = None \<and>
    pg_integer seasonId = Some sid \<longrightarrow>
      rankings_season scoped_cache_ops db c seasonId =
        (Json ''MISS'' (''rankings:season:'' @ number_to_string seasonId) (season_rankings db sid),
         c\<lparr>entries := (entries c)(''rankings:season:'' @ number_to_string seasonId \<mapsto>
              (season_rankings db sid, now c + 3 * 60 * 1000))\<rparr>)) \<and>
   (fst (scoped_get c (''rankings:date:'' @ date)) = None \<and> date_in date = Some d \<longrightarrow>
      rankings_date scoped_cache_ops date_in db c date =
        (Json ''MISS'' (''rankings:date:'' @ date) (date_rankings db d),
         c\<lparr>entries := (entries c)(''rankings:date:'' @ date \<mapsto>
              (date_rankings db d, now c + 15 * 60 * 1000))\<rparr>)) \<and>
   ''rankings:lifetime'' \<noteq> ''rankings:season:'' @ number_to_string a \<and>
   ''rankings:lifetime'' \<noteq> ''rankings:date:'' @ x \<and>
   ''rankings:season:'' @ number_to_string a \<noteq> ''rankings:date:'' @ x \<and>
   (''rankings:season:'' @ number_to_string a = ''rankings:season:'' @ number_to_string b
      \<longrightarrow> a = b) \<and>
   (''rankings:date:'' @ x = ''rankings:date:'' @ y \<longrightarrow> x = y)"
proof -
  have get: "scoped_get c key = (fst (scoped_get c key), c)" for key
    by (simp add: scoped_get_def split: option.splits prod.splits)
  have l: "fst (scoped_get c ''rankings:lifetime'') = None \<longrightarrow>
      rankings_lifetime scoped_cache_ops db c =
        (Json ''MISS'' ''rankings:lifetime'' (lifetime_rankings db),
         c\<lparr>entries := (entries c)(''rankings:lifetime'' \<mapsto>
              (lifetime_rankings db, now c + 10 * 60 * 1000))\<rparr>)"
  proof
    assume "fst (scoped_get c ''rankings:lifetime'') = None"
    with get [of "''rankings:lifetime''"]
    have "scoped_get c ''rankings:lifetime'' = (None, c)" by simp
    then show "rankings_lifetime scoped_cache_ops db c =
        (Json ''MISS'' ''rankings:lifetime'' (lifetime_rankings db),
         c\<lparr>entries := (entries c)(''rankings:lifetime'' \<mapsto>
              (lifetime_rankings db, now c + 10 * 60 * 1000))\<rparr>)"
      by (simp add: rankings_lifetime_def store_and_respond_def scoped_cache_ops_def
          scoped_set_def Let_def)
  qed
  have s: "fst (scoped_get c (''rankings:season:'' @ number_to_string seasonId)) = None \<and>
    pg_integer seasonId = Some sid \<longrightarrow>
      rankings_season scoped_cache_ops db c seasonId =
        (Json ''MISS'' (''rankings:season:'' @ number_to_string seasonId) (season_rankings db sid),
         c\<lparr>entries := (entries c)(''rankings:season:'' @ number_to_string seasonId \<mapsto>
              (season_rankings db sid, now c + 3 * 60 * 1000))\<rparr>)"
  proof
    assume a: "fst (scoped_get c (''rankings:season:'' @ number_to_string seasonId)) = None \<and>
      pg_integer seasonId = Some sid"
    with get [of "''rankings:season:'' @ number_to_string seasonId"]
    have "scoped_get c (''rankings:season:'' @ number_to_string seasonId) = (None, c)" by simp
    with a show "rankings_season scoped_cache_ops db c seasonId =
        (Json ''MISS'' (''rankings:season:'' @ number_to_string seasonId) (season_rankings db sid),
         c\<lparr>entries := (entries c)(''rankings:season:'' @ number_to_string seasonId \<mapsto>
              (season_rankings db sid, now c + 3 * 60 * 1000))\<rparr>)"
      by (simp add: rankings_season_def store_and_respond_def scoped_cache_ops_def
          scoped_set_def Let_def)
  qed
  have t: "fst (scoped_get c (''rankings:date:'' @ date)) = None \<and> date_in date = Some d \<longrightarrow>
      rankings_date scoped_cache_ops date_in db c date =
        (Json ''MISS'' (''rankings:date:'' @ date) (date_rankings db d),
         c\<lparr>entries := (entries c)(''rankings:date:'' @ date \<mapsto>
              (date_rankings db d, now c + 15 * 60 * 1000))\<rparr>)"
  proof
    assume a: "fst (scoped_get c (''rankings:date:'' @ date)) = None \<and> date_in date = Some d"
    with get [of "''rankings:date:'' @ date"]
    have "scoped_get c (''rankings:date:'' @ date) = (None, c)" by simp
    with a show "rankings_date scoped_cache_ops date_in db c date =
        (Json ''MISS'' (''rankings:date:'' @ date) (date_rankings db d),
         c\<lparr>entries := (entries c)(''rankings:date:'' @ date \<mapsto>
              (date_rankings db d, now c + 15 * 60 * 1000))\<rparr>)"
      by (simp add: rankings_date_def store_and_respond_def scoped_cache_ops_def
          scoped_set_def Let_def)
  qed
  have k1: "''rankings:lifetime'' \<noteq> ''rankings:season:'' @ number_to_string a"
    and k2: "''rankings:lifetime'' \<noteq> ''rankings:date:'' @ x"
    and k3: "''rankings:season:'' @ number_to_string a \<noteq> ''rankings:date:'' @ x"
    by simp_all
  have k4: "''rankings:season:'' @ number_to_string a = ''rankings:season:'' @ number_to_string b
      \<longrightarrow> a = b"
    using number_to_string_inj by simp
  have k5: "''rankings:date:'' @ x = ''rankings:date:'' @ y \<longrightarrow> x = y"
    by simp
  from l s t k1 k2 k3 k4 k5 show ?thesis
    by (intro conjI)
qed

theorem stored_under_scope_key_witness:
  "fst (scoped_get empty_cache ''rankings:lifetime'') = None \<and>
   rankings_lifetime scoped_cache_ops demo_db empty_cache =
     (Json ''MISS'' ''rankings:lifetime'' (lifetime_rankings demo_db),
      empty_cache\<lparr>entries := (entries empty_cache)(''rankings:lifetime'' \<mapsto>
         (lifetime_rankings demo_db, now empty_cache + 10 * 60 * 1000))\<rparr>) \<and>
   entries (snd (rankings_lifetime scoped_cache_ops demo_db empty_cache)) ''rankings:lifetime'' =
     Some (lifetime_rankings demo_db, 601000) \<and>
   number_to_string 1 = ''1'' \<and> pg_integer 1 = Some 1 \<and>
   rankings_season scoped_cache_ops demo_db empty_cache 1 =
     (Json ''MISS'' (''rankings:season:'' @ number_to_string 1) (season_rankings demo_db 1),
      empty_cache\<lparr>entries := (entries empty_cache)(''rankings:season:'' @ number_to_string 1 \<mapsto>
         (season_rankings demo_db 1, now empty_cache + 3 * 60 * 1000))\<rparr>) \<and>
   demo_date_in ''1970-04-12'' = Some 101 \<and>
   rankings_date scoped_cache_ops demo_date_in demo_db empty_cache ''1970-04-12'' =
     (Json ''MISS'' (''rankings:date:'' @ ''1970-04-12'') (date_rankings demo_db 101),
      empty_cache\<lparr>entries := (entries empty_cache)(''rankings:date:'' @ ''1970-04-12'' \<mapsto>
         (date_rankings demo_db 101, now empty_cache + 15 * 60 * 1000))\<rparr>)"
proof -
  note inst = stored_under_scope_key
    [of empty_cache demo_db 1 1 "''1970-04-12''" demo_date_in 101 0 "[]" 0 "[]"]
  have n1: "number_to_string 1 = ''1''"
    by code_simp
  have miss: "fst (scoped_get empty_cache key) = None" for key
    by (simp add: scoped_get_def empty_cache_def)
  have pg: "pg_integer 1 = Some 1"
    by (simp add: pg_integer_def)
  have di: "demo_date_in ''1970-04-12'' = Some 101"
    by (simp add: demo_date_in_def)
  note r1 = mp [OF inst [THEN conjunct1] miss]
  note r2 = mp [OF inst [THEN conjunct2, THEN conjunct1] conjI [OF miss pg]]
  note r3 = mp [OF inst [THEN conjunct2, THEN conjunct2, THEN conjunct1] conjI [OF miss di]]
  have e: "entries (snd (rankings_lifetime scoped_cache_ops demo_db empty_cache))
             ''rankings:lifetime'' = Some (lifetime_rankings demo_db, 601000)"
    unfolding r1 by (simp add: empty_cache_def)
  from miss r1 e n1 pg r2 di r3 show ?thesis
    by (intro conjI)
qed

section \<open>A cache that does not take the value\<close>

text \<open>
  C9, as the code has it. For a request that misses the cache (and whose season id
  or date the database accepts): when the call of \<open>set\<close> returns, whatever it did
  with the value, the request answers MISS with the freshly computed ranking; when
  the call throws, nothing catches the exception and the request fails.
\<close>

theorem computed_value_when_set_returns:
  "(cache_get ops c ''rankings:lifetime'' = (None, c1) \<longrightarrow>
      (cache_set ops c1 ''rankings:lifetime'' (lifetime_rankings db) (10 * 60 * 1000) = Returned c2
         \<longrightarrow> rankings_lifetime ops db c =
               (Json ''MISS'' ''rankings:lifetime'' (lifetime_rankings db), c2)) \<and>
      (cache_set ops c1 ''rankings:lifetime'' (lifetime_rankings db) (10 * 60 * 1000) = Thrown c2
         \<longrightarrow> rankings_lifetime ops db c = (Failed, c2))) \<and>
   (cache_get ops c (''rankings:season:'' @ number_to_string seasonId) = (None, c1) \<and>
    pg_integer seasonId = Some sid \<longrightarrow>
      (cache_set ops c1 (''rankings:season:'' @ number_to_string seasonId)
         (season_rankings db sid) (3 * 60 * 1000) = Returned c2
         \<longrightarrow> rankings_season ops db c seasonId =
               (Json ''MISS'' (''rankings:season:'' @ number_to_string seasonId)
                  (season_rankings db sid), c2)) \<and>
      (cache_set ops c1 (''rankings:season:'' @ number_to_string seasonId)
         (season_rankings db sid) (3 * 60 * 1000) = Thrown c2
         \<longrightarrow> rankings_season ops db c seasonId = (Failed, c2))) \<and>
   (cache_get ops c (''rankings:date:'' @ date) = (None, c1) \<and> date_in date = Some d \<longrightarrow>
      (cache_set ops c1 (''rankings:date:'' @ date) (date_rankings db d) (15 * 60 * 1000)
         = Returned c2
         \<longrightarrow> rankings_date ops date_in db c date =
               (Json ''MISS'' (''rankings:date:'' @ date) (date_rankings db d), c2)) \<and>
      (cache_set ops c1 (''rankings:date:'' @ date) (date_rankings db d) (15 * 60 * 1000)
         = Thrown c2
         \<longrightarrow> rankings_date ops date_in db c date = (Failed, c2)))"
  by (simp add: rankings_lifetime_def rankings_season_def rankings_date_def
      store_and_respond_def Let_def)

theorem computed_value_when_set_returns_witness:
  "cache_get scoped_cache_ops empty_cache ''rankings:lifetime'' = (None, empty_cache) \<and>
   cache_set scoped_cache_ops empty_cache ''rankings:lifetime''
     (lifetime_rankings demo_db) (10 * 60 * 1000) =
     Returned (empty_cache\<lparr>entries := (entries empty_cache)(''rankings:lifetime'' \<mapsto>
         (lifetime_rankings demo_db, now empty_cache + 10 * 60 * 1000))\<rparr>) \<and>
   rankings_lifetime scoped_cache_ops demo_db empty_cache =
     (Json ''MISS'' ''rankings:lifetime'' (lifetime_rankings demo_db),
      empty_cache\<lparr>entries := (entries empty_cache)(''rankings:lifetime'' \<mapsto>
         (lifetime_rankings demo_db, now empty_cache + 10 * 60 * 1000))\<rparr>) \<and>
   cache_get throwing_ops empty_cache (''rankings:season:'' @ number_to_string 1) =
     (None, empty_cache) \<and>
   pg_integer 1 = Some 1 \<and>
   cache_set throwing_ops empty_cache (''rankings:season:'' @ number_to_string 1)
     (season_rankings demo_db 1) (3 * 60 * 1000) = Thrown empty_cache \<and>
   rankings_season throwing_ops demo_db empty_cache 1 = (Failed, empty_cache)"
proof -
  let ?c2 = "empty_cache\<lparr>entries := (entries empty_cache)(''rankings:lifetime'' \<mapsto>
         (lifetime_rankings demo_db, now empty_cache + 10 * 60 * 1000))\<rparr>"
  have g: "cache_get scoped_cache_ops empty_cache ''rankings:lifetime'' = (None, empty_cache)"
    by (simp add: scoped_cache_ops_def scoped_get_def empty_cache_def)
  have st: "cache_set scoped_cache_ops empty_cache ''rankings:lifetime''
              (lifetime_rankings demo_db) (10 * 60 * 1000) = Returned ?c2"
    by (simp add: scoped_cache_ops_def scoped_set_def)
  have g': "cache_get throwing_ops empty_cache (''rankings:season:'' @ number_to_string 1) =
              (None, empty_cache)"
    by (simp add: throwing_ops_def scoped_get_def empty_cache_def)
  have pg: "pg_integer 1 = Some 1"
    by (simp add: pg_integer_def)
  have th: "cache_set throwing_ops empty_cache (''rankings:season:'' @ number_to_string 1)
              (season_rankings demo_db 1) (3 * 60 * 1000) = Thrown empty_cache"
    by (simp add: throwing_ops_def)
  note i1 = computed_value_when_set_returns
    [of scoped_cache_ops empty_cache empty_cache demo_db ?c2 1 1 "[]" Map.empty 0]
  note i2 = computed_value_when_set_returns
    [of throwing_ops empty_cache empty_cache demo_db empty_cache 1 1 "[]" Map.empty 0]
  note r1 = mp [OF mp [OF i1 [THEN conjunct1] g, THEN conjunct1] st]
  note r2 = mp [OF mp [OF i2 [THEN conjunct2, THEN conjunct1] conjI [OF g' pg], THEN conjunct2] th]
  from g st r1 g' pg th r2 show ?thesis
    by (intro conjI)
qed

text \<open>
  A request whose cache cannot take the value by throwing does not answer the
  computed ranking: it fails.
\<close>

theorem computed_value_counterexample:
  "cache_get throwing_ops empty_cache ''rankings:lifetime'' = (None, empty_cache) \<and>
   cache_set throwing_ops empty_cache ''rankings:lifetime'' (lifetime_rankings demo_db)
     (10 * 60 * 1000) = Thrown empty_cache \<and>
   rankings_lifetime throwing_ops demo_db empty_cache = (Failed, empty_cache) \<and>
   rankings_lifetime throwing_ops demo_db empty_cache \<noteq>
     (Json ''MISS'' ''rankings:lifetime'' (lifetime_rankings demo_db), empty_cache)"
  by (simp add: rankings_lifetime_def store_and_respond_def throwing_ops_def scoped_get_def
      empty_cache_def)

section \<open>Validation before the handler\<close>

lemma date_route_rejected:
  "\<not> isISO8601 param \<Longrightarrow> date_route isISO8601 ops date_in db c param = (ValidationFailed, c)"
  by (simp add: date_route_def)

lemma date_route_accepted:
  "isISO8601 param \<Longrightarrow>
   date_route isISO8601 ops date_in db c param = rankings_date ops date_in db c param"
  by (simp add: date_route_def)

end
